theory Spec2Isabelle
  imports Main "HOL-Library.AList"
begin

section \<open>Python values and exceptions\<close>

text \<open>
  The exceptions the two modules raise themselves, each as one constructor, and one
  constructor for whatever an external collaborator (the bus transport, the operating
  system, a file object's own \<open>fileno\<close>) raises, named by its message.
  \<^item> \<open>TypeError_handle\<close>: \<open>TypeError("Expected None, int or fileobject with fileno method")\<close>
    of \<open>get_fno\<close>;
  \<^item> \<open>TypeError_arity\<close>: \<open>TypeError('method %s require %s arguments, %s supplied')\<close> of
    \<open>_auto_call_dbus_method\<close>;
  \<^item> \<open>NotImplementedError\<close>, \<open>AttributeError\<close>: raised by \<open>SDInterface\<close>;
  \<^item> \<open>KeyError\<close>, \<open>IndexError\<close>: dictionary and list lookups that miss.
\<close>

datatype exn =
    TypeError_handle
  | TypeError_arity
  | NotImplementedError
  | AttributeError
  | KeyError
  | IndexError
  | External string

text \<open>
  The Python values that reach the code under study. \<open>PFile r\<close> is an object with a
  callable \<open>fileno\<close> attribute, \<open>r\<close> being what calling it does: it returns a value,
  of any kind, or raises. \<open>PObject\<close> is any other object.
\<close>

datatype pyval =
    PNone
  | PBool bool
  | PInt int
  | PBytes string
  | PList "pyval list"
  | PTuple "pyval list"
  | PFile "string + pyval"
  | PObject

fun truthy :: "pyval \<Rightarrow> bool" where
  "truthy PNone = False"
| "truthy (PBool b) = b"
| "truthy (PInt n) = (n \<noteq> 0)"
| "truthy (PBytes s) = (s \<noteq> [])"
| "truthy (PList xs) = (xs \<noteq> [])"
| "truthy (PTuple xs) = (xs \<noteq> [])"
| "truthy (PFile r) = True"
| "truthy PObject = True"

definition bind_exn :: "exn + 'a \<Rightarrow> ('a \<Rightarrow> exn + 'b) \<Rightarrow> exn + 'b" where
  "bind_exn m f = (case m of Inl e \<Rightarrow> Inl e | Inr x \<Rightarrow> f x)"

section \<open>run.py: the cleanup stack \<open>CExit\<close>\<close>

text \<open>
  A registered call \<open>(meth, args, kwargs)\<close> is a state transformer that may raise:
  \<open>Some e\<close> is the exception, together with the state the call left behind.
  \<open>__exit__\<close> is the loop \<open>for call, args, kwargs in reversed(self.pipe): call(*args, **kwargs)\<close>;
  it has no \<open>try\<close>, so an exception leaves the loop at once.
\<close>

type_synonym ('s, 'e) call = "'s \<Rightarrow> 'e option \<times> 's"

record ('s, 'e) CExit =
  pipe :: "('s, 'e) call list"

definition CExit_init :: "('s, 'e) CExit" where
  "CExit_init = \<lparr>pipe = []\<rparr>"

definition register :: "('s, 'e) CExit \<Rightarrow> ('s, 'e) call \<Rightarrow> ('s, 'e) CExit" where
  "register c meth = c\<lparr>pipe := pipe c @ [meth]\<rparr>"

fun run_calls :: "('s, 'e) call list \<Rightarrow> 's \<Rightarrow> 'e option \<times> 's" where
  "run_calls [] s = (None, s)"
| "run_calls (call # rest) s =
     (case call s of
        (Some e, s') \<Rightarrow> (Some e, s')
      | (None, s') \<Rightarrow> run_calls rest s')"

definition CExit_exit :: "('s, 'e) CExit \<Rightarrow> 's \<Rightarrow> 'e option \<times> 's" where
  "CExit_exit c s = run_calls (rev (pipe c)) s"

text \<open>Two releases that write their number to a log; the second kind raises after writing.\<close>

definition release_ok :: "nat \<Rightarrow> (nat list, string) call" where
  "release_ok i = (\<lambda>log. (None, log @ [i]))"

definition release_fails :: "nat \<Rightarrow> (nat list, string) call" where
  "release_fails i = (\<lambda>log. (Some ''OSError'', log @ [i]))"

text \<open>A release that raises when it finds the log empty, and writes its number otherwise.\<close>

definition release_if_logged :: "nat \<Rightarrow> (nat list, string) call" where
  "release_if_logged i = (\<lambda>log. if log = [] then (Some ''EBADF'', log) else (None, log @ [i]))"

section \<open>run.py: \<open>get_fno\<close>\<close>

text \<open>
  \<open>isinstance(obj, int)\<close> holds of integers and of booleans (\<open>bool\<close> is a subclass of
  \<open>int\<close>); both are returned as they are. What \<open>obj.fileno()\<close> returns is returned
  without a look at it.
\<close>

fun get_fno :: "pyval \<Rightarrow> exn + pyval" where
  "get_fno PNone = Inr PNone"
| "get_fno (PInt n) = Inr (PInt n)"
| "get_fno (PBool b) = Inr (PBool b)"
| "get_fno (PFile r) = (case r of Inl msg \<Rightarrow> Inl (External msg) | Inr v \<Rightarrow> Inr v)"
| "get_fno _ = Inl TypeError_handle"

section \<open>run.py: composing the unit properties in \<open>run\<close>\<close>

text \<open>
  The keyword arguments of \<open>run\<close>, typed as its docstring describes them. \<open>pty\<close> is
  only ever tested for truth, so the default \<open>None\<close> is \<open>False\<close> here. The three stream
  handles stay untyped values: \<open>get_fno\<close> is what sorts them.
\<close>

record run_args =
  cmd :: "string list"
  name :: "string option"
  user :: "string option"
  user_mode :: bool
  nice :: "int option"
  runtime_max_sec :: "int option"
  env :: "(string \<times> string) list option"
  extra :: "(string \<rightharpoonup> pyval) option"
  cwd :: "string option"
  machine :: "string option"
  wait :: bool
  remain_after_exit :: bool
  pty :: bool
  pty_master :: "int option"
  pty_path :: "string option"
  stdin :: pyval
  stdout :: pyval
  stderr :: pyval

text \<open>
  What the operating system and the bus answer during one call of \<open>run\<close>, in the order
  the code asks:
  \<^item> \<open>uuid4_hex\<close>: \<open>uuid.uuid4().hex\<close>;
  \<^item> \<open>enter_bus\<close>: entering \<open>bus_factory()\<close> and \<open>SDManager(bus=bus)\<close> in the \<open>with\<close> statement;
  \<^item> \<open>Machine_OpenPTY\<close>: \<open>pystemd.machine1.Machine(machine).Machine.OpenPTY()\<close>;
  \<^item> \<open>openpty\<close>, \<open>ttyname\<close>: \<open>pty.openpty()\<close> and \<open>os.ttyname\<close>;
  \<^item> \<open>setraw\<close>: \<open>tty.tcgetattr(stdin)\<close> followed by \<open>tty.setraw(stdin)\<close>;
  \<^item> \<open>getenv_TERM\<close>: \<open>os.getenv('TERM')\<close>;
  \<^item> \<open>copy_winsize\<close>: the two \<open>fcntl.ioctl\<close> calls that copy the window size.

  Where one of them fails, the answer is the message of the exception it raises.
\<close>

record os =
  uuid4_hex :: string
  enter_bus :: "string option"
  Machine_OpenPTY :: "string \<Rightarrow> string + (int \<times> string)"
  openpty :: "string + (int \<times> int)"
  ttyname :: "int \<Rightarrow> string + string"
  setraw :: "pyval \<Rightarrow> string option"
  getenv_TERM :: "string option"
  copy_winsize :: "pyval \<Rightarrow> int \<Rightarrow> string option"

text \<open>The calls \<open>run\<close> registers on its \<open>CExit\<close>, and the descriptors it will select on.\<close>

datatype cleanup = Close_fd int | Restore_tty pyval

record built =
  unit_name :: string
  unit_properties :: "string \<rightharpoonup> pyval"
  ctexit :: "cleanup list"
  selectors :: "pyval list"

definition truthy_bytes :: "string option \<Rightarrow> bool" where
  "truthy_bytes b = (case b of None \<Rightarrow> False | Some s \<Rightarrow> s \<noteq> [])"

definition opt_bytes :: "string option \<Rightarrow> pyval" where
  "opt_bytes b = (case b of None \<Rightarrow> PNone | Some s \<Rightarrow> PBytes s)"

definition opt_int :: "int option \<Rightarrow> pyval" where
  "opt_int i = (case i of None \<Rightarrow> PNone | Some n \<Rightarrow> PInt n)"

text \<open>\<open>name or 'pystemd{}.service'.format(uuid.uuid4().hex).encode()\<close>\<close>

definition unit_name_of :: "os \<Rightarrow> string option \<Rightarrow> string" where
  "unit_name_of w n =
     (case n of
        None \<Rightarrow> ''pystemd'' @ uuid4_hex w @ ''.service''
      | Some s \<Rightarrow> if s \<noteq> [] then s else ''pystemd'' @ uuid4_hex w @ ''.service'')"

text \<open>\<open>(runtime_max_sec or 0) * 10**6 or runtime_max_sec\<close>\<close>

definition runtime_max_usec :: "int option \<Rightarrow> pyval" where
  "runtime_max_usec r =
     (let secs = (case r of None \<Rightarrow> 0 | Some n \<Rightarrow> if n \<noteq> 0 then n else 0);
          usec = secs * 10 ^ 6
      in if usec \<noteq> 0 then PInt usec else opt_int r)"

text \<open>
  \<open>if pty:\<close> with its two branches. The result is the \<open>pty_master\<close> and \<open>pty_path\<close> in
  force afterwards and what was registered for cleanup.
\<close>

definition acquire_pty :: "os \<Rightarrow> run_args \<Rightarrow> exn + (int option \<times> string option \<times> cleanup list)" where
  "acquire_pty w a =
     (if pty a then
        (if truthy_bytes (machine a) then
           (case Machine_OpenPTY w (case machine a of Some m \<Rightarrow> m | None \<Rightarrow> []) of
              Inl msg \<Rightarrow> Inl (External msg)
            | Inr (master, path) \<Rightarrow> Inr (Some master, Some path, []))
         else
           (case openpty w of
              Inl msg \<Rightarrow> Inl (External msg)
            | Inr (master, follower) \<Rightarrow>
                (case ttyname w follower of
                   Inl msg \<Rightarrow> Inl (External msg)
                 | Inr path \<Rightarrow> Inr (Some master, Some path, [Close_fd master]))))
      else Inr (pty_master a, pty_path a, []))"

text \<open>
  The body of \<open>if pty_path:\<close>, after the four terminal keys are set: forwarding of stdin
  and stdout through the master. It yields the environment, the cleanups and the selectors.
\<close>

definition forward_stdin ::
  "os \<Rightarrow> pyval \<Rightarrow> int option \<Rightarrow> exn + (cleanup list \<times> pyval list)" where
  "forward_stdin w sin master =
     (if sin \<noteq> PNone \<and> master \<noteq> None then
        (case setraw w sin of
           Some msg \<Rightarrow> Inl (External msg)
         | None \<Rightarrow> Inr ([Restore_tty sin], [sin]))
      else Inr ([], []))"

definition forward_stdout ::
  "os \<Rightarrow> pyval \<Rightarrow> int option \<Rightarrow> (string \<times> string) list \<Rightarrow>
   exn + ((string \<times> string) list \<times> pyval list)" where
  "forward_stdout w sout master ev =
     (case master of
        None \<Rightarrow> Inr (ev, [])
      | Some m \<Rightarrow>
          if sout = PNone then Inr (ev, [])
          else
            (let ev' = (if truthy_bytes (getenv_TERM w)
                        then (case map_of ev ''TERM'' of
                                Some v \<Rightarrow> AList.update ''TERM'' v ev
                              | None \<Rightarrow>
                                  AList.update ''TERM''
                                    (case getenv_TERM w of Some t \<Rightarrow> t | None \<Rightarrow> []) ev)
                        else ev)
             in case copy_winsize w sout m of
                  Some msg \<Rightarrow> Inl (External msg)
                | None \<Rightarrow> Inr (ev', [PInt m])))"

text \<open>\<open>get_fno(stdin) if stdin else stdin\<close>, on what the first \<open>get_fno\<close> returned.\<close>

definition descriptor_of :: "pyval \<Rightarrow> exn + pyval" where
  "descriptor_of h = (if truthy h then get_fno h else Inr h)"

text \<open>\<open>[b'%s=%s' % (key, value) for key, value in env.items()] or None\<close>\<close>

definition environment_of :: "(string \<times> string) list \<Rightarrow> pyval" where
  "environment_of ev =
     (let entries = map (\<lambda>(key, v). PBytes (key @ ''='' @ v)) ev
      in if entries \<noteq> [] then PList entries else PNone)"

text \<open>The second \<open>unit_properties.update\<close>; \<open>cmd[0]\<close> raises on an empty command.\<close>

definition common_properties ::
  "run_args \<Rightarrow> string \<Rightarrow> (string \<times> string) list \<Rightarrow> exn + (string \<rightharpoonup> pyval)" where
  "common_properties a nm ev =
     (case cmd a of
        [] \<Rightarrow> Inl IndexError
      | c0 # _ \<Rightarrow>
          Inr [''Description'' \<mapsto> PBytes (''pystemd: '' @ nm),
               ''ExecStart'' \<mapsto> PList [PTuple [PBytes c0, PList (map PBytes (cmd a)), PBool False]],
               ''RemainAfterExit'' \<mapsto> PBool (remain_after_exit a),
               ''WorkingDirectory'' \<mapsto> opt_bytes (cwd a),
               ''User'' \<mapsto> opt_bytes (user a),
               ''Nice'' \<mapsto> opt_int (nice a),
               ''RuntimeMaxUSec'' \<mapsto> runtime_max_usec (runtime_max_sec a),
               ''Environment'' \<mapsto> environment_of ev])"

text \<open>\<open>{k: v for k, v in unit_properties.items() if v is not None}\<close>\<close>

definition drop_None :: "(string \<rightharpoonup> pyval) \<Rightarrow> (string \<rightharpoonup> pyval)" where
  "drop_None m = (\<lambda>k. case m k of Some PNone \<Rightarrow> None | r \<Rightarrow> r)"

text \<open>
  The stream routing: the \<open>if pty_path: ... else: ...\<close> statement. It yields the
  properties set so far, the environment, the cleanups and the selectors.
\<close>

definition stream_properties ::
  "os \<Rightarrow> pyval \<Rightarrow> pyval \<Rightarrow> pyval \<Rightarrow> int option \<Rightarrow> string option \<Rightarrow> (string \<times> string) list \<Rightarrow>
   exn + ((string \<rightharpoonup> pyval) \<times> (string \<times> string) list \<times> cleanup list \<times> pyval list)" where
  "stream_properties w sin sout serr master path ev =
     (if truthy_bytes path then
        bind_exn (forward_stdin w sin master) (\<lambda>(cl, sel1).
        bind_exn (forward_stdout w sout master ev) (\<lambda>(ev', sel2).
          Inr ([''StandardInput'' \<mapsto> PBytes ''tty'',
                ''StandardOutput'' \<mapsto> PBytes ''tty'',
                ''StandardError'' \<mapsto> PBytes ''tty'',
                ''TTYPath'' \<mapsto> opt_bytes path],
               ev', cl, sel1 @ sel2)))
      else
        bind_exn (descriptor_of sin) (\<lambda>din.
        bind_exn (descriptor_of sout) (\<lambda>dout.
        bind_exn (descriptor_of serr) (\<lambda>derr.
          Inr ([''StandardInputFileDescriptor'' \<mapsto> din,
                ''StandardOutputFileDescriptor'' \<mapsto> dout,
                ''StandardErrorFileDescriptor'' \<mapsto> derr],
               ev, [], [])))))"

text \<open>\<open>extra or {}\<close>\<close>

definition extra_of :: "run_args \<Rightarrow> (string \<rightharpoonup> pyval)" where
  "extra_of a = (case extra a of None \<Rightarrow> Map.empty | Some x \<Rightarrow> x)"

text \<open>
  \<open>run\<close> from its first statement to \<open>unit_properties.update(extra or {})\<close>: the
  dictionary as it stands before the comprehension filters it.
\<close>

definition run_merge :: "os \<Rightarrow> run_args \<Rightarrow> exn + built" where
  "run_merge w a =
     (let nm = unit_name_of w (name a) in
      bind_exn (get_fno (stdin a)) (\<lambda>sin.
      bind_exn (get_fno (stdout a)) (\<lambda>sout.
      bind_exn (get_fno (stderr a)) (\<lambda>serr.
      let ev = (case env a of None \<Rightarrow> [] | Some d \<Rightarrow> d) in
      case enter_bus w of
        Some msg \<Rightarrow> Inl (External msg)
      | None \<Rightarrow>
          bind_exn (acquire_pty w a) (\<lambda>(master, path, cl1).
          bind_exn (stream_properties w sin sout serr master path ev) (\<lambda>(props, ev', cl2, sel).
          bind_exn (common_properties a nm ev') (\<lambda>common.
            Inr \<lparr>unit_name = nm,
                 unit_properties =
                   props ++ common ++ extra_of a,
                 ctexit = cl1 @ cl2,
                 selectors = sel\<rparr>)))))))"

text \<open>
  \<open>run\<close> up to the dictionary comprehension that fixes \<open>unit_properties\<close>. Nothing
  changes that dictionary afterwards: it is the third argument of
  \<open>manager.Manager.StartTransientUnit(name, b'fail', unit_properties)\<close>.
\<close>

definition run_build :: "os \<Rightarrow> run_args \<Rightarrow> exn + built" where
  "run_build w a =
     bind_exn (run_merge w a)
       (\<lambda>b. Inr (b\<lparr>unit_properties := drop_None (unit_properties b)\<rparr>))"

text \<open>What the submitted dictionary holds under one key, when \<open>run\<close> gets as far as submitting.\<close>

definition submitted :: "os \<Rightarrow> run_args \<Rightarrow> string \<Rightarrow> exn + pyval option" where
  "submitted w a k = bind_exn (run_build w a) (\<lambda>b. Inr (unit_properties b k))"

text \<open>
  A host where every call succeeds, and the call \<open>run([b'/bin/echo', b'hi'])\<close> with every
  keyword argument at its default.
\<close>

definition quiet_os :: os where
  "quiet_os =
     \<lparr>uuid4_hex = ''0123456789abcdef0123456789abcdef'',
      enter_bus = None,
      Machine_OpenPTY = (\<lambda>m. Inr (7, ''/dev/pts/7'')),
      openpty = Inr (5, 6),
      ttyname = (\<lambda>fd. if fd = 6 then Inr ''/dev/pts/6'' else Inl ''ENOTTY''),
      setraw = (\<lambda>fd. None),
      getenv_TERM = Some ''xterm'',
      copy_winsize = (\<lambda>fd m. None)\<rparr>"

definition terminal_keys :: "string list" where
  "terminal_keys = [''StandardInput'', ''StandardOutput'', ''StandardError'', ''TTYPath'']"

definition descriptor_keys :: "string list" where
  "descriptor_keys =
     [''StandardInputFileDescriptor'', ''StandardOutputFileDescriptor'',
      ''StandardErrorFileDescriptor'']"

definition echo_args :: run_args where
  "echo_args =
     \<lparr>cmd = [''/bin/echo'', ''hi''], name = None, user = None, user_mode = False,
      nice = None, runtime_max_sec = None, env = None, extra = None, cwd = None,
      machine = None, wait = False, remain_after_exit = False, pty = False,
      pty_master = None, pty_path = None, stdin = PNone, stdout = PNone, stderr = PNone\<rparr>"

section \<open>base.py: the introspection document\<close>

text \<open>
  A node of the parsed document: an element with its tag name, attributes and child
  nodes, or a node of another type (text, comment). \<open>getAttribute\<close> of
  \<open>xml.dom.minidom\<close> answers the empty string for an attribute that is not there.
\<close>

datatype xml = Element string "(string \<times> string) list" "xml list" | Other_node

fun is_element :: "xml \<Rightarrow> bool" where
  "is_element (Element tag atts kids) = True"
| "is_element Other_node = False"

fun tagName :: "xml \<Rightarrow> string" where
  "tagName (Element tag atts kids) = tag"
| "tagName Other_node = []"

fun childNodes :: "xml \<Rightarrow> xml list" where
  "childNodes (Element tag atts kids) = kids"
| "childNodes Other_node = []"

fun getAttribute :: "xml \<Rightarrow> string \<Rightarrow> string" where
  "getAttribute (Element tag atts kids) a = (case map_of atts a of Some v \<Rightarrow> v | None \<Rightarrow> [])"
| "getAttribute Other_node a = []"

section \<open>base.py: the bus\<close>

text \<open>
  What goes over the bus is kept as a log of operations. The answers of the transport,
  and \<open>apply_signature\<close> of \<open>pystemd.dbuslib\<close>, are parameters:
  \<^item> \<open>open_bus\<close>: \<open>DBus().open()\<close>, \<open>Some\<close> message when it raises;
  \<^item> \<open>introspect\<close>: the parsed body of the reply to \<open>Introspect\<close>, its \<open>lastChild\<close>;
  \<^item> \<open>call_reply\<close>: the body of the reply to a method call;
  \<^item> \<open>apply_signature\<close>: the arguments packed by their signature.
\<close>

datatype bus_op =
    Bus_open
  | Bus_close
  | Bus_call string string string string "pyval list"

record bus_env =
  open_bus :: "string option"
  introspect :: "string \<Rightarrow> string \<Rightarrow> string + xml"
  call_reply :: "string \<Rightarrow> string \<Rightarrow> string \<Rightarrow> string \<Rightarrow> pyval list \<Rightarrow> string + pyval"
  apply_signature :: "string \<Rightarrow> pyval list \<Rightarrow> string + pyval list"

definition external :: "string + 'a \<Rightarrow> exn + 'a" where
  "external r = (case r of Inl msg \<Rightarrow> Inl (External msg) | Inr x \<Rightarrow> Inr x)"

section \<open>base.py: \<open>SDInterface\<close> and \<open>meta_interface\<close>\<close>

text \<open>
  The class \<open>meta_interface\<close> builds for one \<open>interface\<close> element, instantiated for an
  interface name. The back reference \<open>sd_object\<close> is an argument of the operations below.
\<close>

record sdinterface =
  interface_name :: string
  properties :: "string list"
  methods :: "string list"
  properties_xml :: "string \<rightharpoonup> xml"
  methods_xml :: "string \<rightharpoonup> xml"

text \<open>One round of \<open>for element in elements\<close>; nodes that are not elements were filtered out.\<close>

definition add_element :: "xml \<Rightarrow> sdinterface \<Rightarrow> sdinterface" where
  "add_element element i =
     (if \<not> is_element element then i
      else if tagName element = ''property'' then
        (let property_name = getAttribute element ''name''
         in i\<lparr>properties := properties i @ [property_name],
               properties_xml := (properties_xml i)(property_name \<mapsto> element)\<rparr>)
      else if tagName element = ''method'' then
        (let method_name = getAttribute element ''name''
         in i\<lparr>methods := methods i @ [method_name],
               methods_xml := (methods_xml i)(method_name \<mapsto> element)\<rparr>)
      else i)"

definition meta_interface :: "xml \<Rightarrow> string \<Rightarrow> sdinterface" where
  "meta_interface interface nm =
     fold add_element (childNodes interface)
       \<lparr>interface_name = nm, properties = [], methods = [],
        properties_xml = Map.empty, methods_xml = Map.empty\<rparr>"

section \<open>base.py: \<open>SDObject\<close>\<close>

text \<open>
  A Python function with its optional attribute \<open>overwrite_interfaces\<close>. Called as an
  override it gets the interface name and the arguments, may use the bus, and returns or
  raises.
\<close>

record pyfunc =
  overwrite_interfaces :: "string list option"
  body :: "string \<Rightarrow> pyval list \<Rightarrow> bus_op list \<Rightarrow> (exn + pyval) \<times> bus_op list"

text \<open>
  What \<open>getattr(sd_object, name, None)\<close> finds: a method of the object's class, an
  interface proxy that \<open>load\<close> stored with \<open>setattr\<close> (named by its key in
  \<open>_interfaces\<close>), or some other value. An attribute of the instance hides a method of
  the class, so \<open>setattr\<close> is an update of one table. Interface proxies and other values
  are not callable and are taken to have no attribute \<open>overwrite_interfaces\<close>.
\<close>

datatype attr = Callable pyfunc | Shortcut string | Plain

record sdobject =
  destination :: string
  path :: string
  interfaces :: "string \<rightharpoonup> sdinterface"
  loaded :: bool
  bus :: bool
  attrs :: "string \<rightharpoonup> attr"

text \<open>
  \<open>bus_context\<close>: a bus given to the constructor (\<open>bus obj\<close>) is used as it is; otherwise
  one is opened for the body and closed in the \<open>finally\<close>.
\<close>

definition bus_context ::
  "bus_env \<Rightarrow> sdobject \<Rightarrow> (bus_op list \<Rightarrow> (exn + 'a) \<times> bus_op list) \<Rightarrow>
   bus_op list \<Rightarrow> (exn + 'a) \<times> bus_op list" where
  "bus_context e obj f log =
     (if bus obj then f log
      else
        (case open_bus e of
           Some msg \<Rightarrow> (Inl (External msg), log @ [Bus_open, Bus_close])
         | None \<Rightarrow> (case f (log @ [Bus_open]) of (r, log') \<Rightarrow> (r, log' @ [Bus_close]))))"

definition get_introspect_xml ::
  "bus_env \<Rightarrow> sdobject \<Rightarrow> bus_op list \<Rightarrow> (exn + xml) \<times> bus_op list" where
  "get_introspect_xml e obj =
     bus_context e obj
       (\<lambda>log. (external (introspect e (destination obj) (path obj)),
               log @ [Bus_call (destination obj) (path obj)
                        ''org.freedesktop.DBus.Introspectable'' ''Introspect'' []]))"

definition startswith :: "string \<Rightarrow> string \<Rightarrow> bool" where
  "startswith s p = (take (length p) s = p)"

text \<open>One round of \<open>for interface in unit_xml.childNodes\<close>.\<close>

definition load_interface :: "xml \<Rightarrow> sdobject \<Rightarrow> sdobject" where
  "load_interface interface obj =
     (if \<not> is_element interface then obj
      else if tagName interface \<noteq> ''interface'' then obj
      else
        (let nm = getAttribute interface ''name'';
             obj' = obj\<lparr>interfaces := (interfaces obj)(nm \<mapsto> meta_interface interface nm)\<rparr>
         in if startswith nm (destination obj)
            then obj'\<lparr>attrs := (attrs obj')(drop (length (destination obj) + 1) nm \<mapsto> Shortcut nm)\<rparr>
            else obj'))"

text \<open>\<open>load\<close>. No statement of it, and none elsewhere in the module, assigns \<open>_loaded\<close>.\<close>

definition load ::
  "bus_env \<Rightarrow> bool \<Rightarrow> sdobject \<Rightarrow> bus_op list \<Rightarrow> (exn + unit) \<times> sdobject \<times> bus_op list" where
  "load e force obj log =
     (if loaded obj \<and> \<not> force then (Inr (), obj, log)
      else
        (case get_introspect_xml e obj log of
           (Inl err, log') \<Rightarrow> (Inl err, obj, log')
         | (Inr unit_xml, log') \<Rightarrow>
             (Inr (), fold load_interface (childNodes unit_xml) obj, log')))"

text \<open>\<open>SDObject.__init__\<close> without \<open>_autoload\<close>, for a class with the given methods.\<close>

definition SDObject_init :: "string \<Rightarrow> string \<Rightarrow> bool \<Rightarrow> (string \<rightharpoonup> attr) \<Rightarrow> sdobject" where
  "SDObject_init dest p given_bus class_methods =
     \<lparr>destination = dest, path = p, interfaces = Map.empty, loaded = False,
      bus = given_bus, attrs = class_methods\<rparr>"

text \<open>\<open>obj.load(); obj.load()\<close>: the second call runs when the first one returns.\<close>

definition load_twice ::
  "bus_env \<Rightarrow> sdobject \<Rightarrow> bus_op list \<Rightarrow> (exn + unit) \<times> sdobject \<times> bus_op list" where
  "load_twice e obj log =
     (case load e False obj log of
        (Inl err, obj1, log1) \<Rightarrow> (Inl err, obj1, log1)
      | (Inr u, obj1, log1) \<Rightarrow> load e False obj1 log1)"

section \<open>base.py: calls and property writes through an interface\<close>

text \<open>The decorator \<open>overwrite_interface_method(interface)\<close> applied to a function.\<close>

definition overwrite_interface_method :: "string \<Rightarrow> pyfunc \<Rightarrow> pyfunc" where
  "overwrite_interface_method interface func =
     func\<lparr>overwrite_interfaces :=
            Some ((case overwrite_interfaces func of None \<Rightarrow> [] | Some l \<Rightarrow> l) @ [interface])\<rparr>"

text \<open>\<open>re.compile(r'v|\{')\<close> finds a match in a signature that holds one of the two characters.\<close>

definition block_chars :: "string \<Rightarrow> bool" where
  "block_chars arg = (CHR ''v'' \<in> set arg \<or> CHR ''{'' \<in> set arg)"

definition auto_call_dbus_method ::
  "bus_env \<Rightarrow> sdobject \<Rightarrow> sdinterface \<Rightarrow> string \<Rightarrow> string list \<Rightarrow> pyval list \<Rightarrow>
   bus_op list \<Rightarrow> (exn + pyval) \<times> bus_op list" where
  "auto_call_dbus_method e obj i method_name in_args args log =
     (if length args \<noteq> length in_args then (Inl TypeError_arity, log)
      else if list_ex block_chars in_args then (Inl NotImplementedError, log)
      else
        (case apply_signature e (concat in_args) args of
           Inl msg \<Rightarrow> (Inl (External msg), log)
         | Inr call_args \<Rightarrow>
             bus_context e obj
               (\<lambda>log. (external (call_reply e (destination obj) (path obj) (interface_name i)
                                   method_name call_args),
                       log @ [Bus_call (destination obj) (path obj) (interface_name i)
                                method_name call_args]))
               log))"

text \<open>The declared input signatures of a \<open>method\<close> element, in document order.\<close>

definition in_args_of :: "xml \<Rightarrow> string list" where
  "in_args_of meth =
     map (\<lambda>arg. getAttribute arg ''type'')
       (filter (\<lambda>arg. is_element arg \<and> getAttribute arg ''direction'' = ''in'') (childNodes meth))"

definition call_method ::
  "bus_env \<Rightarrow> sdobject \<Rightarrow> sdinterface \<Rightarrow> string \<Rightarrow> pyval list \<Rightarrow>
   bus_op list \<Rightarrow> (exn + pyval) \<times> bus_op list" where
  "call_method e obj i method_name args log =
     (let overwrite_method = attrs obj method_name;
          registered = (case overwrite_method of
                          Some (Callable f) \<Rightarrow>
                            (case overwrite_interfaces f of None \<Rightarrow> [] | Some l \<Rightarrow> l)
                        | _ \<Rightarrow> [])
      in case overwrite_method of
           Some (Callable f) \<Rightarrow>
             if interface_name i \<in> set registered then body f (interface_name i) args log
             else
               (case methods_xml i method_name of
                  None \<Rightarrow> (Inl KeyError, log)
                | Some meth \<Rightarrow> auto_call_dbus_method e obj i method_name (in_args_of meth) args log)
         | _ \<Rightarrow>
             (case methods_xml i method_name of
                None \<Rightarrow> (Inl KeyError, log)
              | Some meth \<Rightarrow> auto_call_dbus_method e obj i method_name (in_args_of meth) args log))"

definition set_property ::
  "sdinterface \<Rightarrow> string \<Rightarrow> pyval \<Rightarrow> bus_op list \<Rightarrow> (exn + unit) \<times> bus_op list" where
  "set_property i property_name v log =
     (case properties_xml i property_name of
        None \<Rightarrow> (Inl KeyError, log)
      | Some element \<Rightarrow>
          if getAttribute element ''access'' = ''read'' then (Inl AttributeError, log)
          else (Inl NotImplementedError, log))"

section \<open>A service to try the proxy on\<close>

text \<open>
  An \<open>interface\<close> element with a read-only property, a writable one, a method of one
  string argument and a method whose argument is a dictionary of variants.
\<close>

definition manager_interface :: "string \<Rightarrow> xml" where
  "manager_interface nm =
     Element ''interface'' [(''name'', nm)]
       [Other_node,
        Element ''property'' [(''name'', ''Version''), (''type'', ''s''), (''access'', ''read'')] [],
        Element ''property'' [(''name'', ''LogLevel''), (''type'', ''s''), (''access'', ''readwrite'')] [],
        Element ''method'' [(''name'', ''GetUnit'')]
          [Element ''arg'' [(''type'', ''s''), (''direction'', ''in'')] [],
           Element ''arg'' [(''type'', ''o''), (''direction'', ''out'')] []],
        Element ''method'' [(''name'', ''SetOptions'')]
          [Element ''arg'' [(''type'', ''a{sv}''), (''direction'', ''in'')] []]]"

definition svc_document :: "string \<Rightarrow> xml" where
  "svc_document nm = Element ''node'' [] [Other_node, manager_interface nm]"

definition svc_env :: "string \<Rightarrow> bus_env" where
  "svc_env nm =
     \<lparr>open_bus = None,
      introspect = (\<lambda>d p. Inr (svc_document nm)),
      call_reply = (\<lambda>d p i m args. Inr (PList args)),
      apply_signature = (\<lambda>sig args. Inr args)\<rparr>"

definition fetch_op :: bus_op where
  "fetch_op = Bus_call ''svc'' ''/svc'' ''org.freedesktop.DBus.Introspectable'' ''Introspect'' []"

text \<open>
  An interface in the manner of \<open>org.freedesktop.DBus.Properties\<close>: \<open>GetAll\<close> takes a
  string and returns a dictionary of variants, \<open>Set\<close> takes two strings and a variant.
\<close>

definition properties_interface :: "string \<Rightarrow> xml" where
  "properties_interface nm =
     Element ''interface'' [(''name'', nm)]
       [Element ''method'' [(''name'', ''GetAll'')]
          [Element ''arg'' [(''type'', ''s''), (''direction'', ''in'')] [],
           Element ''arg'' [(''type'', ''a{sv}''), (''direction'', ''out'')] []],
        Element ''method'' [(''name'', ''Set'')]
          [Element ''arg'' [(''type'', ''s''), (''direction'', ''in'')] [],
           Element ''arg'' [(''type'', ''s''), (''direction'', ''in'')] [],
           Element ''arg'' [(''type'', ''v''), (''direction'', ''in'')] []]]"

text \<open>An override that never touches the bus and answers with its interface name.\<close>

definition echo_override :: pyfunc where
  "echo_override =
     \<lparr>overwrite_interfaces = None,
      body = (\<lambda>iface args log. (Inr (PTuple (PBytes iface # args)), log))\<rparr>"

section \<open>Properties\<close>

subsection \<open>The cleanup stack\<close>

lemma run_calls_append:
  "run_calls (xs @ ys) s =
     (case run_calls xs s of (Some e, s') \<Rightarrow> (Some e, s') | (None, s') \<Rightarrow> run_calls ys s')"
  by (induction xs arbitrary: s) (auto split: prod.splits option.splits)

lemma run_calls_None:
  "run_calls xs s = (None, s') \<Longrightarrow> s' = fold (\<lambda>call s. snd (call s)) xs s"
proof (induction xs arbitrary: s)
  case Nil
  then show ?case by simp
next
  case (Cons a xs)
  obtain r t where a: "a s = (r, t)" by (cases "a s")
  with Cons.prems have r: "r = None" and rest: "run_calls xs t = (None, s')"
    by (auto split: option.splits)
  have "s' = fold (\<lambda>call s. snd (call s)) xs t"
    using Cons.IH [OF rest] .
  with a show ?case by simp
qed

lemma run_calls_no_raise:
  "(\<forall>k < length xs. fst ((xs ! k) (fold (\<lambda>call s. snd (call s)) (take k xs) s)) = None) \<Longrightarrow>
   run_calls xs s = (None, fold (\<lambda>call s. snd (call s)) xs s)"
proof (induction xs rule: rev_induct)
  case Nil
  then show ?case by simp
next
  case (snoc x xs)
  have "\<forall>k < length xs. fst ((xs ! k) (fold (\<lambda>call s. snd (call s)) (take k xs) s)) = None"
  proof (intro allI impI)
    fix k assume k: "k < length xs"
    then have "fst (((xs @ [x]) ! k) (fold (\<lambda>call s. snd (call s)) (take k (xs @ [x])) s)) = None"
      using snoc.prems by simp
    with k show "fst ((xs ! k) (fold (\<lambda>call s. snd (call s)) (take k xs) s)) = None"
      by (simp add: nth_append)
  qed
  then have xs: "run_calls xs s = (None, fold (\<lambda>call s. snd (call s)) xs s)"
    by (rule snoc.IH)
  have "fst (x (fold (\<lambda>call s. snd (call s)) xs s)) = None"
    using snoc.prems [rule_format, of "length xs"] by simp
  then obtain t where "x (fold (\<lambda>call s. snd (call s)) xs s) = (None, t)"
    by (cases "x (fold (\<lambda>call s. snd (call s)) xs s)") auto
  with xs show ?case
    by (simp add: run_calls_append)
qed

text \<open>
  Claim C2, as the code has it. \<open>CExit.__exit__\<close> calls the registered actions in reverse
  order of registration and stops at the first one that raises. When no action raises,
  each in the state the actions before it left, all of them run, last registered first;
  and whenever \<open>__exit__\<close> ends without an exception, every registered action has run.
  When an action raises after the actions registered later have run, its exception is the
  outcome of \<open>__exit__\<close> at once, and the actions registered earlier are not called (the
  outcome does not depend on them).
\<close>

theorem CExit_exit_until_first_failure:
  "((\<forall>k < length (pipe c).
        fst ((rev (pipe c) ! k)
               (fold (\<lambda>call s. snd (call s)) (take k (rev (pipe c))) s)) = None) \<longrightarrow>
      CExit_exit c s = (None, fold (\<lambda>call s. snd (call s)) (rev (pipe c)) s))
   \<and> (fst (CExit_exit c s) = None \<longrightarrow>
      snd (CExit_exit c s) = fold (\<lambda>call s. snd (call s)) (rev (pipe c)) s)
   \<and> (pipe c = earlier @ [call] @ later \<and> run_calls (rev later) s = (None, s1)
        \<and> call s1 = (Some e, s2) \<longrightarrow>
      CExit_exit c s = (Some e, s2))"
proof (intro conjI impI)
  assume "\<forall>k < length (pipe c).
        fst ((rev (pipe c) ! k)
               (fold (\<lambda>call s. snd (call s)) (take k (rev (pipe c))) s)) = None"
  then have "\<forall>k < length (rev (pipe c)).
        fst ((rev (pipe c) ! k)
               (fold (\<lambda>call s. snd (call s)) (take k (rev (pipe c))) s)) = None"
    by simp
  then show "CExit_exit c s = (None, fold (\<lambda>call s. snd (call s)) (rev (pipe c)) s)"
    unfolding CExit_exit_def by (rule run_calls_no_raise)
next
  assume "fst (CExit_exit c s) = None"
  then have "run_calls (rev (pipe c)) s = (None, snd (CExit_exit c s))"
    by (simp add: CExit_exit_def prod_eq_iff)
  then show "snd (CExit_exit c s) = fold (\<lambda>call s. snd (call s)) (rev (pipe c)) s"
    by (rule run_calls_None)
next
  assume h: "pipe c = earlier @ [call] @ later \<and> run_calls (rev later) s = (None, s1)
        \<and> call s1 = (Some e, s2)"
  then have "rev (pipe c) = rev later @ (call # rev earlier)"
    by simp
  then show "CExit_exit c s = (Some e, s2)"
    using h by (simp add: CExit_exit_def run_calls_append)
qed

text \<open>
  Both cases on concrete stacks. The first holds a release that fails only on an empty
  log: registered first, it runs after release 2 has written to the log and does not raise.
\<close>

theorem CExit_exit_until_first_failure_witness:
  "CExit_exit (register (register CExit_init (release_if_logged 1)) (release_ok 2)) []
     = (None, [2, 1])
   \<and> CExit_exit (register (register (register CExit_init (release_ok 1)) (release_fails 2))
        (release_ok 3)) [] = (Some ''OSError'', [3, 2])"
proof -
  let ?c = "register (register CExit_init (release_if_logged 1)) (release_ok 2)"
  let ?d = "register (register (register CExit_init (release_ok 1)) (release_fails 2))
        (release_ok 3)"
  have p: "rev (pipe ?c) = [release_ok 2, release_if_logged 1]"
    by (simp add: register_def CExit_init_def)
  have ok: "\<forall>k < length (pipe ?c).
        fst ((rev (pipe ?c) ! k)
               (fold (\<lambda>call s. snd (call s)) (take k (rev (pipe ?c))) [])) = None"
  proof (intro allI impI)
    fix k assume "k < length (pipe ?c)"
    then have "k = 0 \<or> k = 1"
      by (auto simp: register_def CExit_init_def)
    then show "fst ((rev (pipe ?c) ! k)
               (fold (\<lambda>call s. snd (call s)) (take k (rev (pipe ?c))) [])) = None"
      unfolding p by (auto simp: release_ok_def release_if_logged_def)
  qed
  have bad: "pipe ?d = [release_ok 1] @ [release_fails 2] @ [release_ok 3]
        \<and> run_calls (rev [release_ok 3]) [] = (None, [3])
        \<and> release_fails 2 [3] = (Some ''OSError'', [3, 2])"
    by (simp add: register_def CExit_init_def release_ok_def release_fails_def)
  have 1: "CExit_exit ?c [] = (None, fold (\<lambda>call s. snd (call s)) (rev (pipe ?c)) [])"
    using CExit_exit_until_first_failure [of ?c "[]"] ok by blast
  have 2: "CExit_exit ?d [] = (Some ''OSError'', [3, 2])"
    using CExit_exit_until_first_failure
      [of ?d "[]" "[release_ok 1]" "release_fails 2" "[release_ok 3]" "[3]" "''OSError''" "[3, 2]"]
      bad by blast
  show ?thesis
    using 1 2 unfolding p by (simp add: release_ok_def release_if_logged_def)
qed

text \<open>
  Claim C2 as stated fails: release 1 is registered first, release 2 second and raises.
  \<open>__exit__\<close> ends with that exception and the log holds release 2 only; release 1 never ran.
\<close>

theorem CExit_exit_counterexample:
  "CExit_exit (register (register CExit_init (release_ok 1)) (release_fails 2)) []
     = (Some ''OSError'', [2])"
  by (simp add: CExit_exit_def register_def CExit_init_def release_ok_def release_fails_def)

subsection \<open>The unit properties\<close>

lemma get_fno_int:
  "y = PNone \<or> (\<exists>n. y = PInt n) \<or> (\<exists>b. y = PBool b) \<Longrightarrow> get_fno y = Inr y"
  by auto

lemma descriptor_of_None: "descriptor_of PNone = Inr PNone"
  by (simp add: descriptor_of_def)

lemma descriptor_of_int: "descriptor_of (PInt n) = Inr (PInt n)"
  by (simp add: descriptor_of_def)

lemma bind_exn_Inr: "bind_exn m f = Inr y \<longleftrightarrow> (\<exists>x. m = Inr x \<and> f x = Inr y)"
  by (cases m) (auto simp: bind_exn_def)

lemma run_merge_Inr:
  assumes "run_merge w a = Inr b"
  shows "\<exists>sin sout serr master tp cl1 props ev' cl2 sel common.
           get_fno (stdin a) = Inr sin \<and> get_fno (stdout a) = Inr sout \<and>
           get_fno (stderr a) = Inr serr \<and>
           acquire_pty w a = Inr (master, tp, cl1) \<and>
           stream_properties w sin sout serr master tp
             (case env a of None \<Rightarrow> [] | Some d \<Rightarrow> d) = Inr (props, ev', cl2, sel) \<and>
           common_properties a (unit_name_of w (name a)) ev' = Inr common \<and>
           unit_properties b = props ++ common ++ extra_of a"
  using assms
  by (auto simp: run_merge_def Let_def bind_exn_Inr split: option.splits prod.splits)

lemma run_build_Inr:
  "run_build w a = Inr b \<longleftrightarrow>
     (\<exists>m. run_merge w a = Inr m \<and> b = m\<lparr>unit_properties := drop_None (unit_properties m)\<rparr>)"
  by (auto simp: run_build_def bind_exn_Inr)

lemma drop_None_apply:
  "drop_None m k = (if m k = Some PNone then None else m k)"
  by (auto simp: drop_None_def split: option.splits pyval.splits)

lemma common_properties_Inr:
  assumes "common_properties a nm ev = Inr common"
  shows "common ''RuntimeMaxUSec'' = Some (runtime_max_usec (runtime_max_sec a))"
    and "common ''WorkingDirectory'' = Some (opt_bytes (cwd a))"
    and "common ''User'' = Some (opt_bytes (user a))"
    and "common ''Nice'' = Some (opt_int (nice a))"
    and "common ''RemainAfterExit'' = Some (PBool (remain_after_exit a))"
    and "k \<in> set terminal_keys \<union> set descriptor_keys \<Longrightarrow> common k = None"
  using assms
  by (auto simp: common_properties_def terminal_keys_def descriptor_keys_def split: list.splits)

lemma stream_properties_terminal:
  assumes "stream_properties w sin sout serr master tp ev = Inr (props, ev', cl, sel)"
    and "truthy_bytes tp"
  shows "props = [''StandardInput'' \<mapsto> PBytes ''tty'', ''StandardOutput'' \<mapsto> PBytes ''tty'',
                  ''StandardError'' \<mapsto> PBytes ''tty'', ''TTYPath'' \<mapsto> opt_bytes tp]"
  using assms
  by (auto simp: stream_properties_def bind_exn_Inr)

lemma stream_properties_descriptor:
  assumes "stream_properties w sin sout serr master tp ev = Inr (props, ev', cl, sel)"
    and "\<not> truthy_bytes tp"
  shows "\<exists>din dout derr.
           descriptor_of sin = Inr din \<and> descriptor_of sout = Inr dout
         \<and> descriptor_of serr = Inr derr
         \<and> props = [''StandardInputFileDescriptor'' \<mapsto> din,
                     ''StandardOutputFileDescriptor'' \<mapsto> dout,
                     ''StandardErrorFileDescriptor'' \<mapsto> derr]"
  using assms
  by (auto simp: stream_properties_def bind_exn_Inr)

lemma runtime_max_usec_eq:
  "runtime_max_usec r = (case r of None \<Rightarrow> PNone | Some n \<Rightarrow> PInt (n * 1000000))"
  by (auto simp: runtime_max_usec_def opt_int_def Let_def split: option.splits)

text \<open>
  Claim C3, as the code has it. When \<open>run\<close> reaches the submission and \<open>extra\<close> does not
  set \<open>RuntimeMaxUSec\<close> itself, the submitted dictionary holds \<open>RuntimeMaxUSec\<close> exactly
  when \<open>runtime_max_sec\<close> is not \<open>None\<close>, and its value is the seconds times 1,000,000: 5
  gives 5,000,000, \<open>None\<close> omits the key, and 0 is submitted as 0.
\<close>

theorem runtime_conversion:
  assumes "run_build w a = Inr b" and "extra_of a ''RuntimeMaxUSec'' = None"
  shows "unit_properties b ''RuntimeMaxUSec'' =
           (case runtime_max_sec a of None \<Rightarrow> None | Some n \<Rightarrow> Some (PInt (n * 1000000)))"
proof -
  obtain m where m: "run_merge w a = Inr m"
    and b: "b = m\<lparr>unit_properties := drop_None (unit_properties m)\<rparr>"
    using assms(1) by (auto simp: run_build_Inr)
  obtain props common ev' nm where
    c: "common_properties a nm ev' = Inr common"
    and u: "unit_properties m = props ++ common ++ extra_of a"
    using run_merge_Inr [OF m] by blast
  have "unit_properties m ''RuntimeMaxUSec'' = Some (runtime_max_usec (runtime_max_sec a))"
    using u assms(2) common_properties_Inr(1) [OF c] by (simp add: map_add_def)
  then show ?thesis
    by (simp add: b drop_None_apply runtime_max_usec_eq split: option.splits)
qed

lemmas run_eval =
  submitted_def run_build_def run_merge_def bind_exn_def quiet_os_def echo_args_def
  unit_name_of_def acquire_pty_def stream_properties_def descriptor_of_def
  common_properties_def truthy_bytes_def drop_None_def runtime_max_usec_def opt_int_def
  opt_bytes_def extra_of_def environment_of_def forward_stdin_def forward_stdout_def Let_def

text \<open>
  Claim C3 as stated fails for \<open>runtime_max_sec=0\<close>: the expression
  \<open>(0 or 0) * 10**6 or 0\<close> is \<open>0\<close>, which is not \<open>None\<close>, so the key stays in the dictionary.
\<close>

theorem runtime_zero_counterexample:
  "submitted quiet_os (echo_args\<lparr>runtime_max_sec := Some 0\<rparr>) ''RuntimeMaxUSec'' = Inr (Some (PInt 0))"
  by (simp add: run_eval)

text \<open>Five seconds, and no limit given.\<close>

theorem runtime_conversion_witness:
  "submitted quiet_os (echo_args\<lparr>runtime_max_sec := Some 5\<rparr>) ''RuntimeMaxUSec'' = Inr (Some (PInt 5000000))
   \<and> submitted quiet_os echo_args ''RuntimeMaxUSec'' = Inr None"
proof -
  let ?a5 = "echo_args\<lparr>runtime_max_sec := Some 5\<rparr>"
  obtain b5 where b5: "run_build quiet_os ?a5 = Inr b5"
    by (simp add: run_eval)
  have e5: "extra_of ?a5 ''RuntimeMaxUSec'' = None"
    by (simp add: extra_of_def echo_args_def)
  obtain b0 where b0: "run_build quiet_os echo_args = Inr b0"
    by (simp add: run_eval)
  have e0: "extra_of echo_args ''RuntimeMaxUSec'' = None"
    by (simp add: extra_of_def echo_args_def)
  show ?thesis
    using runtime_conversion [OF b5 e5] runtime_conversion [OF b0 e0] b5 b0
    by (simp add: submitted_def bind_exn_def echo_args_def)
qed

text \<open>
  Claim C4, as the code has it. The comprehension drops a key exactly when its value is
  \<open>None\<close>: the submitted dictionary is the merged one without the keys bound to \<open>None\<close>,
  so it holds no \<open>None\<close>. A value that is set but empty stays: the working directory, the
  user and the nice level are submitted whenever they were given, whatever they are.
\<close>

theorem only_None_dropped:
  assumes "run_build w a = Inr b"
  shows "(\<exists>m. run_merge w a = Inr m
              \<and> (\<forall>k. unit_properties b k =
                     (if unit_properties m k = Some PNone then None else unit_properties m k)))
         \<and> (\<forall>k. unit_properties b k \<noteq> Some PNone)
         \<and> (extra_of a ''WorkingDirectory'' = None \<longrightarrow>
              unit_properties b ''WorkingDirectory'' = map_option PBytes (cwd a))
         \<and> (extra_of a ''User'' = None \<longrightarrow>
              unit_properties b ''User'' = map_option PBytes (user a))
         \<and> (extra_of a ''Nice'' = None \<longrightarrow>
              unit_properties b ''Nice'' = map_option PInt (nice a))"
proof -
  obtain m where m: "run_merge w a = Inr m"
    and b: "b = m\<lparr>unit_properties := drop_None (unit_properties m)\<rparr>"
    using assms by (auto simp: run_build_Inr)
  obtain props common ev' nm where
    c: "common_properties a nm ev' = Inr common"
    and u: "unit_properties m = props ++ common ++ extra_of a"
    using run_merge_Inr [OF m] by blast
  have 1: "\<exists>m. run_merge w a = Inr m
              \<and> (\<forall>k. unit_properties b k =
                     (if unit_properties m k = Some PNone then None else unit_properties m k))"
    using m by (simp add: b drop_None_apply)
  have 2: "\<forall>k. unit_properties b k \<noteq> Some PNone"
    by (simp add: b drop_None_apply)
  have 3: "extra_of a ''WorkingDirectory'' = None \<longrightarrow>
             unit_properties b ''WorkingDirectory'' = map_option PBytes (cwd a)"
    using u common_properties_Inr(2) [OF c]
    by (auto simp: b map_add_def drop_None_apply opt_bytes_def split: option.splits)
  have 4: "extra_of a ''User'' = None \<longrightarrow>
             unit_properties b ''User'' = map_option PBytes (user a)"
    using u common_properties_Inr(3) [OF c]
    by (auto simp: b map_add_def drop_None_apply opt_bytes_def split: option.splits)
  have 5: "extra_of a ''Nice'' = None \<longrightarrow>
             unit_properties b ''Nice'' = map_option PInt (nice a)"
    using u common_properties_Inr(4) [OF c]
    by (auto simp: b map_add_def drop_None_apply opt_int_def split: option.splits)
  from 1 2 3 4 5 show ?thesis by (intro conjI)
qed

text \<open>A call with a working directory and nice level 0, and no user.\<close>

theorem only_None_dropped_witness:
  "submitted quiet_os (echo_args\<lparr>cwd := Some ''/tmp'', nice := Some 0\<rparr>) ''WorkingDirectory''
     = Inr (Some (PBytes ''/tmp''))
   \<and> submitted quiet_os (echo_args\<lparr>cwd := Some ''/tmp'', nice := Some 0\<rparr>) ''Nice''
     = Inr (Some (PInt 0))
   \<and> submitted quiet_os (echo_args\<lparr>cwd := Some ''/tmp'', nice := Some 0\<rparr>) ''User''
     = Inr None"
proof -
  let ?a = "echo_args\<lparr>cwd := Some ''/tmp'', nice := Some 0\<rparr>"
  obtain b where b: "run_build quiet_os ?a = Inr b"
    by (simp add: run_eval)
  have e: "extra_of ?a ''WorkingDirectory'' = None" "extra_of ?a ''User'' = None"
    "extra_of ?a ''Nice'' = None"
    by (simp_all add: extra_of_def echo_args_def)
  show ?thesis
    using only_None_dropped [OF b] e b
    by (simp add: submitted_def bind_exn_def echo_args_def)
qed

text \<open>
  Claim C4 as stated fails for a value that is empty and not \<open>None\<close>: with \<open>cwd=b''\<close> the
  submitted dictionary holds \<open>WorkingDirectory\<close> bound to the empty byte string.
\<close>

theorem empty_value_kept_counterexample:
  "submitted quiet_os (echo_args\<lparr>cwd := Some []\<rparr>) ''WorkingDirectory'' = Inr (Some (PBytes []))"
  by (simp add: run_eval)

lemma acquire_pty_path:
  assumes "acquire_pty w a = Inr (master, tp, cl)"
    and "\<forall>fd p. ttyname w fd = Inr p \<longrightarrow> p \<noteq> []"
    and "\<forall>mc fd p. Machine_OpenPTY w mc = Inr (fd, p) \<longrightarrow> p \<noteq> []"
  shows "truthy_bytes tp \<longleftrightarrow> pty a \<or> truthy_bytes (pty_path a)"
    and "\<not> pty a \<Longrightarrow> tp = pty_path a"
proof -
  have t: "\<And>fd p. ttyname w fd = Inr p \<Longrightarrow> p \<noteq> []"
    using assms(2) by blast
  have m: "\<And>mc fd p. Machine_OpenPTY w mc = Inr (fd, p) \<Longrightarrow> p \<noteq> []"
    using assms(3) by blast
  show "truthy_bytes tp \<longleftrightarrow> pty a \<or> truthy_bytes (pty_path a)"
    using assms(1)
    by (auto simp: acquire_pty_def truthy_bytes_def
        split: if_splits sum.splits prod.splits option.splits dest: t m)
  show "\<not> pty a \<Longrightarrow> tp = pty_path a"
    using assms(1) by (simp add: acquire_pty_def)
qed

lemma acquire_pty_machine:
  assumes "acquire_pty w a = Inr (master, tp, cl)" and "pty a" and "truthy_bytes (machine a)"
  shows "\<exists>mc fd p. machine a = Some mc \<and> Machine_OpenPTY w mc = Inr (fd, p) \<and> tp = Some p"
  using assms
  by (auto simp: acquire_pty_def truthy_bytes_def split: sum.splits prod.splits option.splits)

lemma acquire_pty_local:
  assumes "acquire_pty w a = Inr (master, tp, cl)" and "pty a" and "\<not> truthy_bytes (machine a)"
  shows "\<exists>fd follower p.
           openpty w = Inr (fd, follower) \<and> ttyname w follower = Inr p \<and> tp = Some p"
  using assms
  by (auto simp: acquire_pty_def split: sum.splits prod.splits)

lemma terminal_bag:
  assumes "truthy_bytes tp"
    and "\<forall>k \<in> set terminal_keys \<union> set descriptor_keys. extra_of a k = None"
    and "common_properties a nm ev' = Inr common"
    and "bag = drop_None ([''StandardInput'' \<mapsto> PBytes ''tty'', ''StandardOutput'' \<mapsto> PBytes ''tty'',
                  ''StandardError'' \<mapsto> PBytes ''tty'', ''TTYPath'' \<mapsto> opt_bytes tp] ++ common ++ extra_of a)"
  shows "bag ''StandardInput'' = Some (PBytes ''tty'')"
    and "bag ''StandardOutput'' = Some (PBytes ''tty'')"
    and "bag ''StandardError'' = Some (PBytes ''tty'')"
    and "\<exists>p. p \<noteq> [] \<and> tp = Some p \<and> bag ''TTYPath'' = Some (PBytes p)"
    and "\<forall>k \<in> set descriptor_keys. bag k = None"
proof -
  have c: "\<And>k. k \<in> set terminal_keys \<union> set descriptor_keys \<Longrightarrow> common k = None"
    using common_properties_Inr(6) [OF assms(3)] by blast
  have e: "\<And>k. k \<in> set terminal_keys \<union> set descriptor_keys \<Longrightarrow> extra_of a k = None"
    using assms(2) by blast
  show "bag ''StandardInput'' = Some (PBytes ''tty'')"
    using c [of "''StandardInput''"] e [of "''StandardInput''"]
    by (simp add: assms(4) drop_None_apply map_add_def terminal_keys_def)
  show "bag ''StandardOutput'' = Some (PBytes ''tty'')"
    using c [of "''StandardOutput''"] e [of "''StandardOutput''"]
    by (simp add: assms(4) drop_None_apply map_add_def terminal_keys_def)
  show "bag ''StandardError'' = Some (PBytes ''tty'')"
    using c [of "''StandardError''"] e [of "''StandardError''"]
    by (simp add: assms(4) drop_None_apply map_add_def terminal_keys_def)
  show "\<exists>p. p \<noteq> [] \<and> tp = Some p \<and> bag ''TTYPath'' = Some (PBytes p)"
    using c [of "''TTYPath''"] e [of "''TTYPath''"] assms(1)
    by (auto simp: assms(4) drop_None_apply map_add_def terminal_keys_def truthy_bytes_def
        opt_bytes_def split: option.splits)
  show "\<forall>k \<in> set descriptor_keys. bag k = None"
  proof
    fix k assume k: "k \<in> set descriptor_keys"
    then show "bag k = None"
      using c [of k] e [of k]
      by (auto simp: assms(4) drop_None_apply map_add_def descriptor_keys_def)
  qed
qed

lemma descriptor_bag:
  assumes "\<forall>k \<in> set terminal_keys \<union> set descriptor_keys. extra_of a k = None"
    and "common_properties a nm ev' = Inr common"
    and "bag = drop_None ([''StandardInputFileDescriptor'' \<mapsto> sin,
                  ''StandardOutputFileDescriptor'' \<mapsto> sout,
                  ''StandardErrorFileDescriptor'' \<mapsto> serr] ++ common ++ extra_of a)"
  shows "bag ''StandardInputFileDescriptor'' = (if sin = PNone then None else Some sin)"
    and "bag ''StandardOutputFileDescriptor'' = (if sout = PNone then None else Some sout)"
    and "bag ''StandardErrorFileDescriptor'' = (if serr = PNone then None else Some serr)"
    and "\<forall>k \<in> set terminal_keys. bag k = None"
proof -
  have c: "\<And>k. k \<in> set terminal_keys \<union> set descriptor_keys \<Longrightarrow> common k = None"
    using common_properties_Inr(6) [OF assms(2)] by blast
  have e: "\<And>k. k \<in> set terminal_keys \<union> set descriptor_keys \<Longrightarrow> extra_of a k = None"
    using assms(1) by blast
  show "bag ''StandardInputFileDescriptor'' = (if sin = PNone then None else Some sin)"
    using c [of "''StandardInputFileDescriptor''"] e [of "''StandardInputFileDescriptor''"]
    by (simp add: assms(3) drop_None_apply map_add_def descriptor_keys_def)
  show "bag ''StandardOutputFileDescriptor'' = (if sout = PNone then None else Some sout)"
    using c [of "''StandardOutputFileDescriptor''"] e [of "''StandardOutputFileDescriptor''"]
    by (simp add: assms(3) drop_None_apply map_add_def descriptor_keys_def)
  show "bag ''StandardErrorFileDescriptor'' = (if serr = PNone then None else Some serr)"
    using c [of "''StandardErrorFileDescriptor''"] e [of "''StandardErrorFileDescriptor''"]
    by (simp add: assms(3) drop_None_apply map_add_def descriptor_keys_def)
  show "\<forall>k \<in> set terminal_keys. bag k = None"
  proof
    fix k assume k: "k \<in> set terminal_keys"
    then show "bag k = None"
      using c [of k] e [of k]
      by (auto simp: assms(3) drop_None_apply map_add_def terminal_keys_def)
  qed
qed

text \<open>
  Claim C9, as the code has it. Let \<open>extra\<close> name none of the seven stream keys, and let
  the operating system name a terminal it opens with a non-empty path. When \<open>run\<close>
  reaches the submission, then: if a terminal is requested (\<open>pty\<close> true, or a non-empty
  \<open>pty_path\<close>), the dictionary holds \<open>StandardInput\<close>, \<open>StandardOutput\<close> and
  \<open>StandardError\<close> bound to \<open>tty\<close> and \<open>TTYPath\<close> bound to the terminal's path, and none
  of the three descriptor keys, whatever descriptors were supplied. The terminal's path is
  \<open>pty_path\<close> when \<open>pty\<close> is false; with \<open>pty\<close> it is the path \<open>OpenPTY\<close> of the machine
  returns, or without a machine the name \<open>os.ttyname\<close> gives the follower end of the pair
  \<open>openpty\<close> returns. Otherwise the dictionary holds none of the four terminal keys, and
  for each stream the descriptor key bound to what \<open>get_fno(handle) if handle else handle\<close>
  yields on the handle \<open>get_fno\<close> returned, unless that is \<open>None\<close>, when the key is
  absent: no key for a stream that was not supplied, and the integer itself for a stream
  supplied as an integer.
\<close>

theorem one_routing_mode:
  assumes "run_build w a = Inr b"
    and "\<forall>k \<in> set terminal_keys \<union> set descriptor_keys. extra_of a k = None"
    and "\<forall>fd p. ttyname w fd = Inr p \<longrightarrow> p \<noteq> []"
    and "\<forall>mc fd p. Machine_OpenPTY w mc = Inr (fd, p) \<longrightarrow> p \<noteq> []"
  shows "(pty a \<or> truthy_bytes (pty_path a) \<longrightarrow>
            unit_properties b ''StandardInput'' = Some (PBytes ''tty'')
          \<and> unit_properties b ''StandardOutput'' = Some (PBytes ''tty'')
          \<and> unit_properties b ''StandardError'' = Some (PBytes ''tty'')
          \<and> (\<exists>p. p \<noteq> [] \<and> unit_properties b ''TTYPath'' = Some (PBytes p)
                 \<and> (\<not> pty a \<longrightarrow> pty_path a = Some p)
                 \<and> (pty a \<and> truthy_bytes (machine a) \<longrightarrow>
                      (\<exists>mc fd. machine a = Some mc \<and> Machine_OpenPTY w mc = Inr (fd, p)))
                 \<and> (pty a \<and> \<not> truthy_bytes (machine a) \<longrightarrow>
                      (\<exists>fd follower. openpty w = Inr (fd, follower)
                                      \<and> ttyname w follower = Inr p)))
          \<and> (\<forall>k \<in> set descriptor_keys. unit_properties b k = None))
       \<and> (\<not> (pty a \<or> truthy_bytes (pty_path a)) \<longrightarrow>
            (\<forall>k \<in> set terminal_keys. unit_properties b k = None)
          \<and> (\<exists>sin din. get_fno (stdin a) = Inr sin \<and> descriptor_of sin = Inr din
                \<and> unit_properties b ''StandardInputFileDescriptor'' =
                    (if din = PNone then None else Some din))
          \<and> (\<exists>sout dout. get_fno (stdout a) = Inr sout \<and> descriptor_of sout = Inr dout
                \<and> unit_properties b ''StandardOutputFileDescriptor'' =
                    (if dout = PNone then None else Some dout))
          \<and> (\<exists>serr derr. get_fno (stderr a) = Inr serr \<and> descriptor_of serr = Inr derr
                \<and> unit_properties b ''StandardErrorFileDescriptor'' =
                    (if derr = PNone then None else Some derr))
          \<and> (stdin a = PNone \<longrightarrow> unit_properties b ''StandardInputFileDescriptor'' = None)
          \<and> (stdout a = PNone \<longrightarrow> unit_properties b ''StandardOutputFileDescriptor'' = None)
          \<and> (stderr a = PNone \<longrightarrow> unit_properties b ''StandardErrorFileDescriptor'' = None)
          \<and> (\<forall>n. stdin a = PInt n \<longrightarrow>
                unit_properties b ''StandardInputFileDescriptor'' = Some (PInt n))
          \<and> (\<forall>n. stdout a = PInt n \<longrightarrow>
                unit_properties b ''StandardOutputFileDescriptor'' = Some (PInt n))
          \<and> (\<forall>n. stderr a = PInt n \<longrightarrow>
                unit_properties b ''StandardErrorFileDescriptor'' = Some (PInt n)))"
proof -
  obtain m where m: "run_merge w a = Inr m"
    and b: "b = m\<lparr>unit_properties := drop_None (unit_properties m)\<rparr>"
    using assms(1) by (auto simp: run_build_Inr)
  obtain sin sout serr master tp cl1 props ev' cl2 sel common where
    g: "get_fno (stdin a) = Inr sin" "get_fno (stdout a) = Inr sout"
       "get_fno (stderr a) = Inr serr"
    and p: "acquire_pty w a = Inr (master, tp, cl1)"
    and s: "stream_properties w sin sout serr master tp
             (case env a of None \<Rightarrow> [] | Some d \<Rightarrow> d) = Inr (props, ev', cl2, sel)"
    and c: "common_properties a (unit_name_of w (name a)) ev' = Inr common"
    and u: "unit_properties m = props ++ common ++ extra_of a"
    using run_merge_Inr [OF m] by blast
  have bag: "unit_properties b = drop_None (props ++ common ++ extra_of a)"
    by (simp add: b u)
  have mode: "truthy_bytes tp \<longleftrightarrow> pty a \<or> truthy_bytes (pty_path a)"
    using acquire_pty_path(1) [OF p assms(3,4)] .
  show ?thesis
  proof (intro conjI impI allI)
    assume t: "pty a \<or> truthy_bytes (pty_path a)"
    have tp: "truthy_bytes tp" using t mode by simp
    have bag': "unit_properties b =
        drop_None ([''StandardInput'' \<mapsto> PBytes ''tty'', ''StandardOutput'' \<mapsto> PBytes ''tty'',
                    ''StandardError'' \<mapsto> PBytes ''tty'', ''TTYPath'' \<mapsto> opt_bytes tp]
                   ++ common ++ extra_of a)"
      using bag stream_properties_terminal [OF s tp] by simp
    note tb = terminal_bag [OF tp assms(2) c bag']
    show "unit_properties b ''StandardInput'' = Some (PBytes ''tty'')" by (rule tb(1))
    show "unit_properties b ''StandardOutput'' = Some (PBytes ''tty'')" by (rule tb(2))
    show "unit_properties b ''StandardError'' = Some (PBytes ''tty'')" by (rule tb(3))
    show "\<forall>k \<in> set descriptor_keys. unit_properties b k = None" by (rule tb(5))
    obtain q where q: "q \<noteq> []" "tp = Some q" "unit_properties b ''TTYPath'' = Some (PBytes q)"
      using tb(4) by blast
    have 1: "\<not> pty a \<longrightarrow> pty_path a = Some q"
      using acquire_pty_path(2) [OF p assms(3,4)] q(2) by simp
    have 2: "pty a \<and> truthy_bytes (machine a) \<longrightarrow>
               (\<exists>mc fd. machine a = Some mc \<and> Machine_OpenPTY w mc = Inr (fd, q))"
      using acquire_pty_machine [OF p] q(2) by auto
    have 3: "pty a \<and> \<not> truthy_bytes (machine a) \<longrightarrow>
               (\<exists>fd follower. openpty w = Inr (fd, follower) \<and> ttyname w follower = Inr q)"
      using acquire_pty_local [OF p] q(2) by auto
    from q(1) q(3) 1 2 3
    show "\<exists>p. p \<noteq> [] \<and> unit_properties b ''TTYPath'' = Some (PBytes p)
                 \<and> (\<not> pty a \<longrightarrow> pty_path a = Some p)
                 \<and> (pty a \<and> truthy_bytes (machine a) \<longrightarrow>
                      (\<exists>mc fd. machine a = Some mc \<and> Machine_OpenPTY w mc = Inr (fd, p)))
                 \<and> (pty a \<and> \<not> truthy_bytes (machine a) \<longrightarrow>
                      (\<exists>fd follower. openpty w = Inr (fd, follower)
                                      \<and> ttyname w follower = Inr p))"
      by (intro exI [of _ q] conjI)
  next
    assume t: "\<not> (pty a \<or> truthy_bytes (pty_path a))"
    have tp: "\<not> truthy_bytes tp" using t mode by simp
    obtain din dout derr where
      d: "descriptor_of sin = Inr din" "descriptor_of sout = Inr dout"
         "descriptor_of serr = Inr derr"
      and props: "props = [''StandardInputFileDescriptor'' \<mapsto> din,
                    ''StandardOutputFileDescriptor'' \<mapsto> dout,
                    ''StandardErrorFileDescriptor'' \<mapsto> derr]"
      using stream_properties_descriptor [OF s tp] by blast
    have bag': "unit_properties b =
        drop_None ([''StandardInputFileDescriptor'' \<mapsto> din,
                    ''StandardOutputFileDescriptor'' \<mapsto> dout,
                    ''StandardErrorFileDescriptor'' \<mapsto> derr] ++ common ++ extra_of a)"
      using bag props by simp
    note db = descriptor_bag [OF assms(2) c bag']
    show "\<forall>k \<in> set terminal_keys. unit_properties b k = None" by (rule db(4))
    from g(1) d(1) db(1)
    show "\<exists>sin din. get_fno (stdin a) = Inr sin \<and> descriptor_of sin = Inr din
                \<and> unit_properties b ''StandardInputFileDescriptor'' =
                    (if din = PNone then None else Some din)"
      by blast
    from g(2) d(2) db(2)
    show "\<exists>sout dout. get_fno (stdout a) = Inr sout \<and> descriptor_of sout = Inr dout
                \<and> unit_properties b ''StandardOutputFileDescriptor'' =
                    (if dout = PNone then None else Some dout)"
      by blast
    from g(3) d(3) db(3)
    show "\<exists>serr derr. get_fno (stderr a) = Inr serr \<and> descriptor_of serr = Inr derr
                \<and> unit_properties b ''StandardErrorFileDescriptor'' =
                    (if derr = PNone then None else Some derr)"
      by blast
    show "unit_properties b ''StandardInputFileDescriptor'' = None" if "stdin a = PNone"
    proof -
      have "sin = PNone" using that g(1) by simp
      then have "din = PNone" using d(1) by (simp add: descriptor_of_None)
      then show ?thesis using db(1) by simp
    qed
    show "unit_properties b ''StandardOutputFileDescriptor'' = None" if "stdout a = PNone"
    proof -
      have "sout = PNone" using that g(2) by simp
      then have "dout = PNone" using d(2) by (simp add: descriptor_of_None)
      then show ?thesis using db(2) by simp
    qed
    show "unit_properties b ''StandardErrorFileDescriptor'' = None" if "stderr a = PNone"
    proof -
      have "serr = PNone" using that g(3) by simp
      then have "derr = PNone" using d(3) by (simp add: descriptor_of_None)
      then show ?thesis using db(3) by simp
    qed
    show "unit_properties b ''StandardInputFileDescriptor'' = Some (PInt n)"
      if "stdin a = PInt n" for n
    proof -
      have "sin = PInt n" using that g(1) by simp
      then have "din = PInt n" using d(1) by (simp add: descriptor_of_int)
      then show ?thesis using db(1) by simp
    qed
    show "unit_properties b ''StandardOutputFileDescriptor'' = Some (PInt n)"
      if "stdout a = PInt n" for n
    proof -
      have "sout = PInt n" using that g(2) by simp
      then have "dout = PInt n" using d(2) by (simp add: descriptor_of_int)
      then show ?thesis using db(2) by simp
    qed
    show "unit_properties b ''StandardErrorFileDescriptor'' = Some (PInt n)"
      if "stderr a = PInt n" for n
    proof -
      have "serr = PInt n" using that g(3) by simp
      then have "derr = PInt n" using d(3) by (simp add: descriptor_of_int)
      then show ?thesis using db(3) by simp
    qed
  qed
qed

text \<open>
  A terminal opened by \<open>run\<close> together with a descriptor for stdout and a \<open>pty_path\<close> that
  the new terminal replaces, and the descriptor alone.
\<close>

theorem one_routing_mode_witness:
  "submitted quiet_os (echo_args\<lparr>pty := True, pty_path := Some ''/dev/pts/0'', stdout := PInt 1\<rparr>)
     ''StandardOutput'' = Inr (Some (PBytes ''tty''))
   \<and> submitted quiet_os (echo_args\<lparr>pty := True, pty_path := Some ''/dev/pts/0'', stdout := PInt 1\<rparr>)
     ''TTYPath'' = Inr (Some (PBytes ''/dev/pts/6''))
   \<and> submitted quiet_os (echo_args\<lparr>pty := True, pty_path := Some ''/dev/pts/0'', stdout := PInt 1\<rparr>)
     ''StandardOutputFileDescriptor'' = Inr None
   \<and> submitted quiet_os (echo_args\<lparr>stdout := PInt 1\<rparr>) ''StandardOutputFileDescriptor''
     = Inr (Some (PInt 1))
   \<and> submitted quiet_os (echo_args\<lparr>stdout := PInt 1\<rparr>) ''StandardInputFileDescriptor''
     = Inr None
   \<and> submitted quiet_os (echo_args\<lparr>stdout := PInt 1\<rparr>) ''StandardOutput'' = Inr None"
proof -
  let ?t = "echo_args\<lparr>pty := True, pty_path := Some ''/dev/pts/0'', stdout := PInt 1\<rparr>"
  let ?d = "echo_args\<lparr>stdout := PInt 1\<rparr>"
  obtain bt where bt: "run_build quiet_os ?t = Inr bt"
    by (simp add: run_eval)
  obtain bd where bd: "run_build quiet_os ?d = Inr bd"
    by (simp add: run_eval)
  have et: "\<forall>k \<in> set terminal_keys \<union> set descriptor_keys. extra_of ?t k = None"
    by (simp add: extra_of_def echo_args_def)
  have ed: "\<forall>k \<in> set terminal_keys \<union> set descriptor_keys. extra_of ?d k = None"
    by (simp add: extra_of_def echo_args_def)
  have o1: "\<forall>fd p. ttyname quiet_os fd = Inr p \<longrightarrow> p \<noteq> []"
    by (auto simp: quiet_os_def)
  have o2: "\<forall>mc fd p. Machine_OpenPTY quiet_os mc = Inr (fd, p) \<longrightarrow> p \<noteq> []"
    by (auto simp: quiet_os_def)
  have mt: "pty ?t \<or> truthy_bytes (pty_path ?t)"
    by simp
  have lt: "pty ?t \<and> \<not> truthy_bytes (machine ?t)"
    by (simp add: echo_args_def truthy_bytes_def)
  have md: "\<not> (pty ?d \<or> truthy_bytes (pty_path ?d))"
    by (simp add: echo_args_def truthy_bytes_def)
  have sd: "stdout ?d = PInt 1" "stdin ?d = PNone"
    by (simp_all add: echo_args_def)
  note t = one_routing_mode [OF bt et o1 o2]
  note d = one_routing_mode [OF bd ed o1 o2]
  have t1: "unit_properties bt ''StandardOutput'' = Some (PBytes ''tty'')"
    using t mt by blast
  have t2: "unit_properties bt ''StandardOutputFileDescriptor'' = None"
    using t mt by (simp add: descriptor_keys_def)
  obtain q where q: "unit_properties bt ''TTYPath'' = Some (PBytes q)"
    "\<exists>fd follower. openpty quiet_os = Inr (fd, follower) \<and> ttyname quiet_os follower = Inr q"
    using t mt lt by blast
  have "q = ''/dev/pts/6''"
    using q(2) by (auto simp: quiet_os_def split: if_splits)
  with q(1) have t3: "unit_properties bt ''TTYPath'' = Some (PBytes ''/dev/pts/6'')"
    by simp
  have d1: "unit_properties bd ''StandardOutputFileDescriptor'' = Some (PInt 1)"
    using d md sd(1) by blast
  have d2: "unit_properties bd ''StandardOutput'' = None"
    using d md by (simp add: terminal_keys_def)
  have d3: "unit_properties bd ''StandardInputFileDescriptor'' = None"
    using d md sd(2) by blast
  show ?thesis
    using bt bd t1 t2 t3 d1 d2 d3 by (simp add: submitted_def bind_exn_def)
qed

text \<open>
  Claim C9 as stated fails when \<open>extra\<close> carries a descriptor key: \<open>extra\<close> is merged after
  the stream routing, so with a terminal requested the submitted dictionary holds both
  the terminal keys and \<open>StandardOutputFileDescriptor\<close>.
\<close>

theorem extra_adds_descriptor_counterexample:
  "submitted quiet_os
     (echo_args\<lparr>pty_path := Some ''/dev/pts/3'',
                 extra := Some [''StandardOutputFileDescriptor'' \<mapsto> PInt 1]\<rparr>)
     ''StandardOutputFileDescriptor'' = Inr (Some (PInt 1))
   \<and> submitted quiet_os
     (echo_args\<lparr>pty_path := Some ''/dev/pts/3'',
                 extra := Some [''StandardOutputFileDescriptor'' \<mapsto> PInt 1]\<rparr>)
     ''StandardOutput'' = Inr (Some (PBytes ''tty''))"
  by (simp add: run_eval)

subsection \<open>Stream handles\<close>

lemma bind_exn_Inl: "bind_exn m f = Inl e \<longleftrightarrow> m = Inl e \<or> (\<exists>x. m = Inr x \<and> f x = Inl e)"
  by (cases m) (auto simp: bind_exn_def)

lemma acquire_pty_no_handle_error: "acquire_pty w a \<noteq> Inl TypeError_handle"
  by (auto simp: acquire_pty_def split: sum.splits prod.splits)

lemma common_properties_no_handle_error: "common_properties a nm ev \<noteq> Inl TypeError_handle"
  by (auto simp: common_properties_def split: list.splits)

lemma stream_properties_None:
  "\<exists>r. stream_properties w PNone PNone PNone master tp ev = Inr r"
  by (cases master)
    (simp_all add: stream_properties_def bind_exn_def forward_stdin_def forward_stdout_def
      descriptor_of_def)

lemma run_build_None_handles:
  assumes "stdin a = PNone" "stdout a = PNone" "stderr a = PNone"
  shows "run_build w a \<noteq> Inl TypeError_handle"
proof
  assume "run_build w a = Inl TypeError_handle"
  then have m: "run_merge w a = Inl TypeError_handle"
    by (auto simp: run_build_def bind_exn_Inl)
  show False
  proof (cases "enter_bus w")
    case (Some msg)
    then show False
      using m assms by (simp add: run_merge_def bind_exn_def Let_def)
  next
    case None
    show False
    proof (cases "acquire_pty w a")
      case (Inl e)
      then show False
        using m assms None acquire_pty_no_handle_error [of w a]
        by (simp add: run_merge_def bind_exn_def Let_def)
    next
      case (Inr r)
      obtain master tp cl1 where r: "r = (master, tp, cl1)"
        by (cases r)
      obtain props ev' cl2 sel where
        s: "stream_properties w PNone PNone PNone master tp
              (case env a of None \<Rightarrow> [] | Some d \<Rightarrow> d) = Inr (props, ev', cl2, sel)"
        using stream_properties_None [of w master tp "case env a of None \<Rightarrow> [] | Some d \<Rightarrow> d"]
        by (metis prod_cases4)
      show False
        using m assms None Inr r s
          common_properties_no_handle_error [of a "unit_name_of w (name a)" ev']
        by (simp add: run_merge_def bind_exn_def Let_def split: sum.splits)
    qed
  qed
qed

text \<open>
  Claim C10, as the code has it. \<open>get_fno\<close> returns \<open>None\<close> for \<open>None\<close>, an integer as
  it is, and whatever \<open>obj.fileno()\<close> returns for an object with that method; applied to a
  value it returned that is \<open>None\<close> or an integer, it returns that value again; and \<open>run\<close>
  with stdin, stdout and stderr all \<open>None\<close> never raises the handle \<open>TypeError\<close> of
  \<open>get_fno\<close>.
\<close>

theorem get_fno_accepts_None:
  "get_fno PNone = Inr PNone
   \<and> (\<forall>n. get_fno (PInt n) = Inr (PInt n))
   \<and> (\<forall>v. get_fno (PFile (Inr v)) = Inr v)
   \<and> (\<forall>x y. get_fno x = Inr y \<and> (y = PNone \<or> (\<exists>n. y = PInt n) \<or> (\<exists>b. y = PBool b)) \<longrightarrow>
         bind_exn (get_fno x) get_fno = get_fno x)
   \<and> (\<forall>w a. stdin a = PNone \<and> stdout a = PNone \<and> stderr a = PNone \<longrightarrow>
         run_build w a \<noteq> Inl TypeError_handle)"
proof (intro conjI allI impI)
  show "get_fno PNone = Inr PNone" by simp
  show "get_fno (PInt n) = Inr (PInt n)" for n by simp
  show "get_fno (PFile (Inr v)) = Inr v" for v by simp
  show "bind_exn (get_fno x) get_fno = get_fno x"
    if "get_fno x = Inr y \<and> (y = PNone \<or> (\<exists>n. y = PInt n) \<or> (\<exists>b. y = PBool b))" for x y
    using that get_fno_int [of y] by (auto simp: bind_exn_def)
  show "run_build w a \<noteq> Inl TypeError_handle"
    if "stdin a = PNone \<and> stdout a = PNone \<and> stderr a = PNone" for w a
    using run_build_None_handles [of a w] that by blast
qed

text \<open>A file object with descriptor 3, and the default call of \<open>run\<close>.\<close>

theorem get_fno_accepts_None_witness:
  "get_fno (PFile (Inr (PInt 3))) = Inr (PInt 3)
   \<and> bind_exn (get_fno (PFile (Inr (PInt 3)))) get_fno = get_fno (PFile (Inr (PInt 3)))
   \<and> run_build quiet_os echo_args \<noteq> Inl TypeError_handle"
proof -
  have h: "stdin echo_args = PNone \<and> stdout echo_args = PNone \<and> stderr echo_args = PNone"
    by (simp add: echo_args_def)
  have g: "get_fno (PFile (Inr (PInt 3))) = Inr (PInt 3)
           \<and> (PInt 3 = PNone \<or> (\<exists>n. PInt 3 = PInt n) \<or> (\<exists>b. PInt 3 = PBool b))"
    by simp
  show ?thesis
    using get_fno_accepts_None h g by blast
qed

text \<open>
  Claim C10 as stated fails for a file object whose \<open>fileno()\<close> returns the byte string
  \<open>b'3'\<close>: \<open>get_fno\<close> returns that string, and \<open>get_fno\<close> of the string raises.
\<close>

theorem get_fno_not_idempotent_counterexample:
  "get_fno (PFile (Inr (PBytes ''3''))) = Inr (PBytes ''3'')
   \<and> get_fno (PBytes ''3'') = Inl TypeError_handle"
  by simp

subsection \<open>The object proxy\<close>

lemmas base_eval =
  load_def get_introspect_xml_def bus_context_def external_def svc_env_def svc_document_def
  manager_interface_def SDObject_init_def load_interface_def meta_interface_def add_element_def
  startswith_def fetch_op_def Let_def

lemma load_interface_loaded: "loaded (load_interface x obj) = loaded obj"
  by (simp add: load_interface_def Let_def)

lemma fold_load_interface_loaded: "loaded (fold load_interface xs obj) = loaded obj"
  by (induction xs arbitrary: obj) (simp_all add: load_interface_loaded)

lemma load_keeps_loaded: "loaded (fst (snd (load e force obj log))) = loaded obj"
  by (auto simp: load_def fold_load_interface_loaded split: prod.splits sum.splits)

text \<open>
  Claim C1 on the code. \<open>load\<close> tests \<open>_loaded\<close> and never sets it, so the flag of a new
  object stays false and every call fetches: \<open>obj.load(); obj.load()\<close> on a new proxy sends
  \<open>Introspect\<close> twice.
\<close>

theorem second_load_fetches_again:
  "snd (snd (load_twice (svc_env ''svc.Manager'') (SDObject_init ''svc'' ''/svc'' True Map.empty) []))
     = [fetch_op, fetch_op]"
  by (simp add: load_twice_def base_eval)

text \<open>
  Claim C5 on the code. The test is \<open>interface_name.startswith(destination)\<close>, without the
  dot: for destination \<open>svc\<close> the interface \<open>svcx.Manager\<close> gets a shortcut, keyed by what
  is left after dropping \<open>len(destination) + 1\<close> characters, \<open>.Manager\<close>.
\<close>

theorem prefix_only_shortcut:
  "attrs (fst (snd (load (svc_env ''svcx.Manager'') False
            (SDObject_init ''svc'' ''/svc'' True Map.empty) []))) ''.Manager''
     = Some (Shortcut ''svcx.Manager'')"
  by (simp add: base_eval)

text \<open>
  Claim C8. A property write through \<open>_set_property\<close> always raises and leaves the bus
  untouched: \<open>AttributeError\<close> for a property declared with access \<open>read\<close>,
  \<open>NotImplementedError\<close> for a property declared with any other access.
\<close>

theorem set_property_always_fails:
  "(\<exists>err. set_property i p v log = (Inl err, log))
   \<and> (\<forall>element. properties_xml i p = Some element \<and> getAttribute element ''access'' = ''read'' \<longrightarrow>
          set_property i p v log = (Inl AttributeError, log))
   \<and> (\<forall>element. properties_xml i p = Some element \<and> getAttribute element ''access'' \<noteq> ''read'' \<longrightarrow>
          set_property i p v log = (Inl NotImplementedError, log))"
  by (auto simp: set_property_def split: option.splits)

text \<open>The read-only property and the writable property of the sample interface.\<close>

theorem set_property_always_fails_witness:
  "set_property (meta_interface (manager_interface ''svc.Manager'') ''svc.Manager'')
      ''Version'' (PBytes ''1'') [] = (Inl AttributeError, [])
   \<and> set_property (meta_interface (manager_interface ''svc.Manager'') ''svc.Manager'')
      ''LogLevel'' (PBytes ''debug'') [] = (Inl NotImplementedError, [])"
proof -
  let ?i = "meta_interface (manager_interface ''svc.Manager'') ''svc.Manager''"
  let ?ver = "Element ''property'' [(''name'', ''Version''), (''type'', ''s''), (''access'', ''read'')] []"
  let ?lvl = "Element ''property'' [(''name'', ''LogLevel''), (''type'', ''s''), (''access'', ''readwrite'')] []"
  have 1: "properties_xml ?i ''Version'' = Some ?ver \<and> getAttribute ?ver ''access'' = ''read''"
    by (simp add: meta_interface_def manager_interface_def add_element_def Let_def)
  have 2: "properties_xml ?i ''LogLevel'' = Some ?lvl \<and> getAttribute ?lvl ''access'' \<noteq> ''read''"
    by (simp add: meta_interface_def manager_interface_def add_element_def Let_def)
  show ?thesis
    using set_property_always_fails [of ?i "''Version''" "PBytes ''1''" "[]"]
      set_property_always_fails [of ?i "''LogLevel''" "PBytes ''debug''" "[]"] 1 2
    by blast
qed

lemma call_method_generic:
  assumes "methods_xml i m = Some meth"
    and "\<forall>f. attrs obj m = Some (Callable f) \<longrightarrow>
           interface_name i \<notin> set (case overwrite_interfaces f of None \<Rightarrow> [] | Some l \<Rightarrow> l)"
  shows "call_method e obj i m args log =
           auto_call_dbus_method e obj i m (in_args_of meth) args log"
  using assms
  by (auto simp: call_method_def Let_def split: option.splits attr.splits)

lemma block_chars_in_args_of:
  "list_ex block_chars (in_args_of meth) \<longleftrightarrow>
     (\<exists>arg \<in> set (childNodes meth).
        is_element arg \<and> getAttribute arg ''direction'' = ''in''
        \<and> (CHR ''v'' \<in> set (getAttribute arg ''type'')
            \<or> CHR ''{'' \<in> set (getAttribute arg ''type'')))"
  by (auto simp: list_ex_iff in_args_of_def block_chars_def)

lemma length_in_args_of:
  "length (in_args_of meth) =
     length (filter (\<lambda>arg. is_element arg \<and> getAttribute arg ''direction'' = ''in'')
               (childNodes meth))"
  by (simp add: in_args_of_def)

lemma auto_call_reaches_bus:
  assumes "length args = length in_args" and "\<not> list_ex block_chars in_args"
    and "apply_signature e (concat in_args) args = Inr call_args"
    and "bus obj \<or> open_bus e = None"
  shows "Bus_call (destination obj) (path obj) (interface_name i) m call_args
           \<in> set (snd (auto_call_dbus_method e obj i m in_args args log))"
  using assms
  by (auto simp: auto_call_dbus_method_def bus_context_def split: prod.splits)

lemma auto_call_not_rejected:
  assumes "\<not> list_ex block_chars in_args"
  shows "fst (auto_call_dbus_method e obj i m in_args args log) \<noteq> Inl NotImplementedError"
  using assms
  by (auto simp: auto_call_dbus_method_def bus_context_def external_def
      split: sum.splits option.splits prod.splits)

text \<open>
  Claim C7. Take a method declared in the interface and not overridden for it, called
  with as many arguments as it declares inputs (the argument elements with direction
  \<open>in\<close>). When the signature of one of these inputs holds \<open>v\<close> or \<open>{\<close>, the call raises
  \<open>NotImplementedError\<close> and nothing goes over the bus. When none does, the call never
  raises \<open>NotImplementedError\<close>, and once the arguments are packed the method call is sent.
\<close>

theorem complex_signature_rejected:
  assumes "methods_xml i m = Some meth"
    and "\<forall>f. attrs obj m = Some (Callable f) \<longrightarrow>
           interface_name i \<notin> set (case overwrite_interfaces f of None \<Rightarrow> [] | Some l \<Rightarrow> l)"
    and "length args =
           length (filter (\<lambda>arg. is_element arg \<and> getAttribute arg ''direction'' = ''in'')
                     (childNodes meth))"
  shows "((\<exists>arg \<in> set (childNodes meth).
             is_element arg \<and> getAttribute arg ''direction'' = ''in''
             \<and> (CHR ''v'' \<in> set (getAttribute arg ''type'')
                 \<or> CHR ''{'' \<in> set (getAttribute arg ''type''))) \<longrightarrow>
            call_method e obj i m args log = (Inl NotImplementedError, log))
       \<and> (\<not> (\<exists>arg \<in> set (childNodes meth).
                is_element arg \<and> getAttribute arg ''direction'' = ''in''
                \<and> (CHR ''v'' \<in> set (getAttribute arg ''type'')
                    \<or> CHR ''{'' \<in> set (getAttribute arg ''type''))) \<longrightarrow>
            fst (call_method e obj i m args log) \<noteq> Inl NotImplementedError
          \<and> (\<forall>call_args.
                apply_signature e
                  (concat (map (\<lambda>arg. getAttribute arg ''type'')
                     (filter (\<lambda>arg. is_element arg \<and> getAttribute arg ''direction'' = ''in'')
                        (childNodes meth)))) args = Inr call_args
                \<and> (bus obj \<or> open_bus e = None) \<longrightarrow>
                Bus_call (destination obj) (path obj) (interface_name i) m call_args
                  \<in> set (snd (call_method e obj i m args log))))"
proof -
  have generic: "call_method e obj i m args log =
           auto_call_dbus_method e obj i m (in_args_of meth) args log"
    using call_method_generic [OF assms(1,2)] .
  have len: "length args = length (in_args_of meth)"
    using assms(3) by (simp add: length_in_args_of)
  show ?thesis
  proof (intro conjI impI allI)
    assume "\<exists>arg \<in> set (childNodes meth).
             is_element arg \<and> getAttribute arg ''direction'' = ''in''
             \<and> (CHR ''v'' \<in> set (getAttribute arg ''type'')
                 \<or> CHR ''{'' \<in> set (getAttribute arg ''type''))"
    then have "list_ex block_chars (in_args_of meth)"
      by (simp add: block_chars_in_args_of)
    then show "call_method e obj i m args log = (Inl NotImplementedError, log)"
      using len by (simp add: generic auto_call_dbus_method_def)
  next
    assume "\<not> (\<exists>arg \<in> set (childNodes meth).
                is_element arg \<and> getAttribute arg ''direction'' = ''in''
                \<and> (CHR ''v'' \<in> set (getAttribute arg ''type'')
                    \<or> CHR ''{'' \<in> set (getAttribute arg ''type'')))"
    then have n: "\<not> list_ex block_chars (in_args_of meth)"
      by (simp add: block_chars_in_args_of)
    show "fst (call_method e obj i m args log) \<noteq> Inl NotImplementedError"
      using auto_call_not_rejected [OF n] by (simp add: generic)
    fix call_args
    assume "apply_signature e
                  (concat (map (\<lambda>arg. getAttribute arg ''type'')
                     (filter (\<lambda>arg. is_element arg \<and> getAttribute arg ''direction'' = ''in'')
                        (childNodes meth)))) args = Inr call_args
                \<and> (bus obj \<or> open_bus e = None)"
    then have "apply_signature e (concat (in_args_of meth)) args = Inr call_args"
      and "bus obj \<or> open_bus e = None"
      by (simp_all add: in_args_of_def)
    then show "Bus_call (destination obj) (path obj) (interface_name i) m call_args
                  \<in> set (snd (call_method e obj i m args log))"
      using auto_call_reaches_bus [OF len n] by (simp add: generic)
  qed
qed

text \<open>
  \<open>Set\<close> takes a variant and is rejected; \<open>GetAll\<close> returns a dictionary of variants and
  takes a string, and is sent.
\<close>

theorem complex_signature_rejected_witness:
  "call_method (svc_env ''svc.Properties'') (SDObject_init ''svc'' ''/svc'' True Map.empty)
     (meta_interface (properties_interface ''svc.Properties'') ''svc.Properties'')
     ''Set'' [PBytes ''a'', PBytes ''b'', PInt 1] [] = (Inl NotImplementedError, [])
   \<and> fst (call_method (svc_env ''svc.Properties'') (SDObject_init ''svc'' ''/svc'' True Map.empty)
     (meta_interface (properties_interface ''svc.Properties'') ''svc.Properties'')
     ''GetAll'' [PBytes ''a''] []) \<noteq> Inl NotImplementedError
   \<and> Bus_call ''svc'' ''/svc'' ''svc.Properties'' ''GetAll'' [PBytes ''a'']
       \<in> set (snd (call_method (svc_env ''svc.Properties'')
                  (SDObject_init ''svc'' ''/svc'' True Map.empty)
                  (meta_interface (properties_interface ''svc.Properties'') ''svc.Properties'')
                  ''GetAll'' [PBytes ''a''] []))"
proof -
  let ?e = "svc_env ''svc.Properties''"
  let ?obj = "SDObject_init ''svc'' ''/svc'' True Map.empty"
  let ?i = "meta_interface (properties_interface ''svc.Properties'') ''svc.Properties''"
  let ?set = "Element ''method'' [(''name'', ''Set'')]
          [Element ''arg'' [(''type'', ''s''), (''direction'', ''in'')] [],
           Element ''arg'' [(''type'', ''s''), (''direction'', ''in'')] [],
           Element ''arg'' [(''type'', ''v''), (''direction'', ''in'')] []]"
  let ?getall = "Element ''method'' [(''name'', ''GetAll'')]
          [Element ''arg'' [(''type'', ''s''), (''direction'', ''in'')] [],
           Element ''arg'' [(''type'', ''a{sv}''), (''direction'', ''out'')] []]"
  have ms: "methods_xml ?i ''Set'' = Some ?set"
    by (simp add: meta_interface_def properties_interface_def add_element_def Let_def)
  have mg: "methods_xml ?i ''GetAll'' = Some ?getall"
    by (simp add: meta_interface_def properties_interface_def add_element_def Let_def)
  have no: "\<forall>f. attrs ?obj ''Set'' = Some (Callable f) \<longrightarrow>
           interface_name ?i \<notin> set (case overwrite_interfaces f of None \<Rightarrow> [] | Some l \<Rightarrow> l)"
    "\<forall>f. attrs ?obj ''GetAll'' = Some (Callable f) \<longrightarrow>
           interface_name ?i \<notin> set (case overwrite_interfaces f of None \<Rightarrow> [] | Some l \<Rightarrow> l)"
    by (simp_all add: SDObject_init_def)
  have ls: "length [PBytes ''a'', PBytes ''b'', PInt 1] =
           length (filter (\<lambda>arg. is_element arg \<and> getAttribute arg ''direction'' = ''in'')
                     (childNodes ?set))"
    by simp
  have lg: "length [PBytes ''a''] =
           length (filter (\<lambda>arg. is_element arg \<and> getAttribute arg ''direction'' = ''in'')
                     (childNodes ?getall))"
    by simp
  have vs: "\<exists>arg \<in> set (childNodes ?set).
             is_element arg \<and> getAttribute arg ''direction'' = ''in''
             \<and> (CHR ''v'' \<in> set (getAttribute arg ''type'')
                 \<or> CHR ''{'' \<in> set (getAttribute arg ''type''))"
    by simp
  have vg: "\<not> (\<exists>arg \<in> set (childNodes ?getall).
             is_element arg \<and> getAttribute arg ''direction'' = ''in''
             \<and> (CHR ''v'' \<in> set (getAttribute arg ''type'')
                 \<or> CHR ''{'' \<in> set (getAttribute arg ''type'')))"
    by simp
  have ag: "apply_signature ?e
                  (concat (map (\<lambda>arg. getAttribute arg ''type'')
                     (filter (\<lambda>arg. is_element arg \<and> getAttribute arg ''direction'' = ''in'')
                        (childNodes ?getall)))) [PBytes ''a''] = Inr [PBytes ''a'']
                \<and> (bus ?obj \<or> open_bus ?e = None)"
    by (simp add: svc_env_def SDObject_init_def)
  have names: "destination ?obj = ''svc''" "path ?obj = ''/svc''"
    "interface_name ?i = ''svc.Properties''"
    by (simp_all add: SDObject_init_def meta_interface_def properties_interface_def
        add_element_def Let_def)
  have 1: "call_method ?e ?obj ?i ''Set'' [PBytes ''a'', PBytes ''b'', PInt 1] []
             = (Inl NotImplementedError, [])"
    using complex_signature_rejected [OF ms no(1) ls, of ?e "[]"] vs by blast
  note g = complex_signature_rejected [OF mg no(2) lg, of ?e "[]"]
  have 2: "fst (call_method ?e ?obj ?i ''GetAll'' [PBytes ''a''] []) \<noteq> Inl NotImplementedError"
    using g vg by blast
  have 3: "Bus_call (destination ?obj) (path ?obj) (interface_name ?i) ''GetAll'' [PBytes ''a'']
             \<in> set (snd (call_method ?e ?obj ?i ''GetAll'' [PBytes ''a''] []))"
    using g vg ag by blast
  show ?thesis
    using 1 2 3 unfolding names by (intro conjI)
qed

lemma fold_overwrite_body: "body (fold overwrite_interface_method Is f) = body f"
  by (induction Is arbitrary: f) (simp_all add: overwrite_interface_method_def)

lemma fold_overwrite_interfaces:
  "(case overwrite_interfaces (fold overwrite_interface_method Is f) of
      None \<Rightarrow> [] | Some l \<Rightarrow> l)
   = (case overwrite_interfaces f of None \<Rightarrow> [] | Some l \<Rightarrow> l) @ Is"
  by (induction Is arbitrary: f) (simp_all add: overwrite_interface_method_def)

text \<open>
  Claim C6. Let the attribute \<open>M\<close> of the owning object be a function \<open>f\<close> decorated with
  \<open>overwrite_interface_method\<close> once for each interface of a list, in any order. A call of
  \<open>M\<close> through the proxy of any interface of the list is the call of \<open>f\<close> with the
  interface name and the arguments, whatever the arguments and the declaration of \<open>M\<close>
  are; a call of \<open>M\<close> through the proxy of an interface \<open>f\<close> is not registered for is the
  generic call, in which \<open>f\<close> has no part.
\<close>

theorem override_dispatch:
  assumes "attrs obj m = Some (Callable (fold overwrite_interface_method Is f))"
  shows "(interface_name i \<in> set Is \<longrightarrow>
            call_method e obj i m args log = body f (interface_name i) args log)
       \<and> (interface_name i \<notin> set Is
           \<and> interface_name i \<notin> set (case overwrite_interfaces f of None \<Rightarrow> [] | Some l \<Rightarrow> l) \<longrightarrow>
            call_method e obj i m args log =
              (case methods_xml i m of
                 None \<Rightarrow> (Inl KeyError, log)
               | Some meth \<Rightarrow> auto_call_dbus_method e obj i m (in_args_of meth) args log))"
  using assms fold_overwrite_interfaces [of Is f]
  by (auto simp: call_method_def Let_def fold_overwrite_body split: option.splits)

text \<open>
  An override of \<open>GetUnit\<close> registered for \<open>svc.Manager\<close> and then for \<open>svc.Other\<close>,
  called with no argument through \<open>svc.Manager\<close> and through \<open>svc.Third\<close>, where the
  generic call rejects the argument count.
\<close>

theorem override_dispatch_witness:
  "call_method (svc_env ''svc.Manager'')
     (SDObject_init ''svc'' ''/svc'' True
        [''GetUnit'' \<mapsto> Callable
           (overwrite_interface_method ''svc.Other''
              (overwrite_interface_method ''svc.Manager'' echo_override))])
     (meta_interface (manager_interface ''svc.Manager'') ''svc.Manager'') ''GetUnit'' [] []
     = (Inr (PTuple [PBytes ''svc.Manager'']), [])
   \<and> call_method (svc_env ''svc.Manager'')
     (SDObject_init ''svc'' ''/svc'' True
        [''GetUnit'' \<mapsto> Callable
           (overwrite_interface_method ''svc.Other''
              (overwrite_interface_method ''svc.Manager'' echo_override))])
     (meta_interface (manager_interface ''svc.Third'') ''svc.Third'') ''GetUnit'' [] []
     = (Inl TypeError_arity, [])"
proof -
  let ?f = "overwrite_interface_method ''svc.Other''
              (overwrite_interface_method ''svc.Manager'' echo_override)"
  let ?obj = "SDObject_init ''svc'' ''/svc'' True [''GetUnit'' \<mapsto> Callable ?f]"
  let ?i = "meta_interface (manager_interface ''svc.Manager'') ''svc.Manager''"
  let ?j = "meta_interface (manager_interface ''svc.Third'') ''svc.Third''"
  have a: "attrs ?obj ''GetUnit''
             = Some (Callable (fold overwrite_interface_method [''svc.Manager'', ''svc.Other'']
                                 echo_override))"
    by (simp add: SDObject_init_def)
  have ni: "interface_name ?i \<in> set [''svc.Manager'', ''svc.Other'']"
    by (simp add: meta_interface_def manager_interface_def add_element_def Let_def)
  have ii: "interface_name ?i = ''svc.Manager''"
    by (simp add: meta_interface_def manager_interface_def add_element_def Let_def)
  have nj: "interface_name ?j \<notin> set [''svc.Manager'', ''svc.Other'']
           \<and> interface_name ?j \<notin>
               set (case overwrite_interfaces echo_override of None \<Rightarrow> [] | Some l \<Rightarrow> l)"
    by (simp add: meta_interface_def manager_interface_def add_element_def Let_def
        echo_override_def)
  have generic: "(case methods_xml ?j ''GetUnit'' of
                 None \<Rightarrow> (Inl KeyError, [])
               | Some meth \<Rightarrow>
                   auto_call_dbus_method (svc_env ''svc.Manager'') ?obj ?j ''GetUnit''
                     (in_args_of meth) [] []) = (Inl TypeError_arity, [])"
    by (simp add: meta_interface_def manager_interface_def add_element_def Let_def
        in_args_of_def auto_call_dbus_method_def)
  have 1: "call_method (svc_env ''svc.Manager'') ?obj ?i ''GetUnit'' [] []
             = body echo_override (interface_name ?i) [] []"
    using override_dispatch [OF a, of ?i "svc_env ''svc.Manager''" "[]" "[]"] ni by blast
  have 2: "call_method (svc_env ''svc.Manager'') ?obj ?j ''GetUnit'' [] [] = (Inl TypeError_arity, [])"
    using override_dispatch [OF a, of ?j "svc_env ''svc.Manager''" "[]" "[]"] nj generic
    by simp
  show ?thesis
    using 1 2 by (simp add: ii echo_override_def)
qed

end
